theory Spec2Isabelle
  imports Complex_Main "HOL-Library.Word"
begin

section \<open>Numerical fluxes and source terms of the two-temperature model\<close>

text \<open>
  The program computes with \<^verbatim>\<open>su2double\<close>. It is embedded here over the reals:
  every formula is taken as written, with exact arithmetic in place of rounding.
  A C array (\<^verbatim>\<open>su2double*\<close>) is a function from the index to the entry, a matrix
  (\<^verbatim>\<open>su2double**\<close>) a function of two indices, and a counted loop is a fold over its
  index range.
\<close>

type_synonym vec = "nat \<Rightarrow> real"
type_synonym mat = "nat \<Rightarrow> nat \<Rightarrow> real"

definition for_loop :: "nat \<Rightarrow> nat \<Rightarrow> (nat \<Rightarrow> 's \<Rightarrow> 's) \<Rightarrow> 's \<Rightarrow> 's" where
  "for_loop lo hi body s = fold body [lo..<hi] s"

subsection \<open>The data of a numerics object\<close>

text \<open>
  The offsets into the primitive vector (\<^verbatim>\<open>RHOS_INDEX\<close>, \<^verbatim>\<open>T_INDEX\<close>, ...) are declared
  outside this file; they are fields of the configuration, so every result holds for any
  layout. The sizes obey \<^verbatim>\<open>nVar = nSpecies + nDim + 2\<close>.
\<close>

record config =
  nDim :: nat
  nSpecies :: nat
  nPrimVar :: nat
  nPrimVarGrad :: nat
  ionization :: bool
  RHOS_INDEX :: nat
  T_INDEX :: nat
  TVE_INDEX :: nat
  VEL_INDEX :: nat
  P_INDEX :: nat
  RHO_INDEX :: nat
  H_INDEX :: nat
  A_INDEX :: nat
  RHOCVTR_INDEX :: nat
  RHOCVVE_INDEX :: nat

text \<open>
  What the program reads from \<^verbatim>\<open>CConfig\<close> about the gas, and the physical constants of the
  code base (\<^verbatim>\<open>UNIVERSAL_GAS_CONSTANT\<close>, \<^verbatim>\<open>AVOGAD_CONSTANT\<close>, \<^verbatim>\<open>PI_NUMBER\<close>), all declared
  outside this file. \<^verbatim>\<open>Reaction_Map r 0\<close> holds the three reactant slots of reaction \<open>r\<close> and
  \<^verbatim>\<open>Reaction_Map r 1\<close> its three product slots; a slot holding \<^verbatim>\<open>nSpecies\<close> is empty.
  \<^verbatim>\<open>ChemistryEquilConstants r\<close> is the table of 6 rows and 5 columns that
  \<^verbatim>\<open>GetChemistryEquilConstants\<close> writes for reaction \<open>r\<close>.
\<close>

record gas = config +
  Molar_Mass :: vec
  RotationModes :: vec
  CharVibTemp :: vec
  Gamma :: real
  Mach :: real
  UNIVERSAL_GAS_CONSTANT :: real
  AVOGAD_CONSTANT :: real
  PI_NUMBER :: real
  nReactions :: nat
  Reaction_Map :: "nat \<Rightarrow> nat \<Rightarrow> nat \<Rightarrow> nat"
  ChemistryEquilConstants :: "nat \<Rightarrow> mat"
  RxnTcf_a :: vec
  RxnTcf_b :: vec
  RxnTcb_a :: vec
  RxnTcb_b :: vec
  ArrheniusCoeff :: vec
  ArrheniusEta :: vec
  ArrheniusTheta :: vec

definition nVar :: "'a config_scheme \<Rightarrow> nat" where
  "nVar c = nSpecies c + nDim c + 2"

text \<open>The left and right states of an edge, set by the caller before \<^verbatim>\<open>ComputeResidual\<close>.\<close>

record edge =
  Normal :: vec
  U_i :: vec
  U_j :: vec
  V_i :: vec
  V_j :: vec
  dPdU_i :: vec
  dPdU_j :: vec
  eve_i :: vec
  eve_j :: vec
  Volume :: real

text \<open>
  Functions of the mixture model and of the base class that this file calls and does not
  define: they are parameters.
\<close>

record kernel =
  CalcEve :: "real \<Rightarrow> nat \<Rightarrow> real"
  CalcHs :: "real \<Rightarrow> real \<Rightarrow> nat \<Rightarrow> real"
  CalcdPdU :: "vec \<Rightarrow> vec \<Rightarrow> vec"
  CreateBasis :: "vec \<Rightarrow> vec \<times> vec"
  GetPMatrix :: "vec \<Rightarrow> vec \<Rightarrow> vec \<Rightarrow> vec \<Rightarrow> vec \<Rightarrow> vec \<Rightarrow> mat"
  GetPMatrix_inv :: "vec \<Rightarrow> vec \<Rightarrow> vec \<Rightarrow> vec \<Rightarrow> vec \<Rightarrow> vec \<Rightarrow> mat"

subsection \<open>Geometry shared by all schemes\<close>

definition face_Area :: "'a config_scheme \<Rightarrow> vec \<Rightarrow> real" where
  "face_Area c n = sqrt (for_loop 0 (nDim c) (\<lambda>iDim A. A + n iDim * n iDim) 0)"

definition face_UnitNormal :: "'a config_scheme \<Rightarrow> vec \<Rightarrow> vec" where
  "face_UnitNormal c n =
     for_loop 0 (nDim c) (\<lambda>iDim u. u(iDim := n iDim / face_Area c n)) (\<lambda>_. 0)"

definition ProjVel :: "'a config_scheme \<Rightarrow> vec \<Rightarrow> vec \<Rightarrow> real" where
  "ProjVel c V n = for_loop 0 (nDim c) (\<lambda>iDim p. p + V (VEL_INDEX c + iDim) * n iDim) 0"

subsection \<open>\<^verbatim>\<open>CUpwRoe_TNE2::ComputeResidual\<close>: Roe state and eigenvalues\<close>

definition Roe_R :: "'a config_scheme \<Rightarrow> 'b edge_scheme \<Rightarrow> real" where
  "Roe_R c e = sqrt \<bar>V_j e (RHO_INDEX c) / V_i e (RHO_INDEX c)\<bar>"


definition RoeV :: "'a config_scheme \<Rightarrow> 'b edge_scheme \<Rightarrow> vec" where
  "RoeV c e = for_loop 0 (nPrimVar c)
     (\<lambda>iVar A. A(iVar := (Roe_R c e * V_j e iVar + V_i e iVar) / (Roe_R c e + 1))) (\<lambda>_. 0)"

definition RoeEve :: "'a config_scheme \<Rightarrow> 'k kernel_scheme \<Rightarrow> 'b edge_scheme \<Rightarrow> vec" where
  "RoeEve c k e = for_loop 0 (nSpecies c)
     (\<lambda>iSpecies A. A(iSpecies := CalcEve k (RoeV c e (TVE_INDEX c)) iSpecies)) (\<lambda>_. 0)"

definition RoedPdU :: "'a config_scheme \<Rightarrow> 'k kernel_scheme \<Rightarrow> 'b edge_scheme \<Rightarrow> vec" where
  "RoedPdU c k e = CalcdPdU k (RoeV c e) (RoeEve c k e)"

definition Roe_ProjVelocity :: "'a config_scheme \<Rightarrow> 'b edge_scheme \<Rightarrow> real" where
  "Roe_ProjVelocity c e = ProjVel c (RoeV c e) (face_UnitNormal c (Normal e))"

definition Roe_ProjVelocity_i :: "'a config_scheme \<Rightarrow> 'b edge_scheme \<Rightarrow> real" where
  "Roe_ProjVelocity_i c e = ProjVel c (V_i e) (face_UnitNormal c (Normal e))"

definition Roe_ProjVelocity_j :: "'a config_scheme \<Rightarrow> 'b edge_scheme \<Rightarrow> real" where
  "Roe_ProjVelocity_j c e = ProjVel c (V_j e) (face_UnitNormal c (Normal e))"

definition RoeSoundSpeed :: "'a config_scheme \<Rightarrow> 'k kernel_scheme \<Rightarrow> 'b edge_scheme \<Rightarrow> real" where
  "RoeSoundSpeed c k e =
     sqrt ((1 + RoedPdU c k e (nSpecies c + nDim c)) * RoeV c e (P_INDEX c) / RoeV c e (RHO_INDEX c))"

text \<open>The eigenvalues before the entropy correction (\<^verbatim>\<open>Calculate eigenvalues\<close>).\<close>

definition Roe_Lambda :: "'a config_scheme \<Rightarrow> 'k kernel_scheme \<Rightarrow> 'b edge_scheme \<Rightarrow> vec" where
  "Roe_Lambda c k e =
     (let ProjVelocity = Roe_ProjVelocity c e;
          L1 = for_loop 0 (nSpecies c) (\<lambda>iSpecies L. L(iSpecies := ProjVelocity)) (\<lambda>_. 0);
          L2 = for_loop 0 (nDim c - 1) (\<lambda>iDim L. L(nSpecies c + iDim := ProjVelocity)) L1;
          L3 = L2(nSpecies c + nDim c - 1 := ProjVelocity + RoeSoundSpeed c k e);
          L4 = L3(nSpecies c + nDim c := ProjVelocity - RoeSoundSpeed c k e)
      in L4(nSpecies c + nDim c + 1 := ProjVelocity))"

text \<open>
  The counter \<^verbatim>\<open>iDim\<close> is declared once for the whole function. When a loop
  \<^verbatim>\<open>for (iDim = 0; iDim < nDim-1; iDim++)\<close> has ended it holds \<^verbatim>\<open>nDim-1\<close> (and 0 when
  \<^verbatim>\<open>nDim\<close> is 0, which is the truncated difference on \<open>nat\<close>). The species entries and the
  last entry of \<^verbatim>\<open>Epsilon\<close> read \<^verbatim>\<open>Lambda[iDim]\<close> with that left-over value.
\<close>

definition iDim_left_over :: "'a config_scheme \<Rightarrow> nat" where
  "iDim_left_over c = nDim c - 1"

definition Roe_Epsilon :: "'a config_scheme \<Rightarrow> 'k kernel_scheme \<Rightarrow> 'b edge_scheme \<Rightarrow> vec" where
  "Roe_Epsilon c k e =
     (let Lambda = Roe_Lambda c k e;
          ProjVelocity_i = Roe_ProjVelocity_i c e;
          ProjVelocity_j = Roe_ProjVelocity_j c e;
          iDim = iDim_left_over c;
          E1 = for_loop 0 (nSpecies c) (\<lambda>iSpecies E. E(iSpecies :=
                 4 * max 0 (max (Lambda iDim - ProjVelocity_i) (ProjVelocity_j - Lambda iDim)))) (\<lambda>_. 0);
          E2 = for_loop 0 (nDim c - 1) (\<lambda>iDim E. E(nSpecies c + iDim :=
                 4 * max 0 (max (Lambda iDim - ProjVelocity_i) (ProjVelocity_j - Lambda iDim)))) E1;
          iDim = iDim_left_over c;
          E3 = E2(nSpecies c + nDim c - 1 :=
                 4 * max 0 (max (Lambda (nSpecies c + nDim c - 1) - (ProjVelocity_i + V_i e (A_INDEX c)))
                                ((ProjVelocity_j + V_j e (A_INDEX c)) - Lambda (nSpecies c + nDim c - 1))));
          E4 = E3(nSpecies c + nDim c :=
                 4 * max 0 (max (Lambda (nSpecies c + nDim c) - (ProjVelocity_i - V_i e (A_INDEX c)))
                                ((ProjVelocity_j - V_j e (A_INDEX c)) - Lambda (nSpecies c + nDim c))))
      in E4(nSpecies c + nDim c + 1 :=
                 4 * max 0 (max (Lambda iDim - ProjVelocity_i) (ProjVelocity_j - Lambda iDim))))"

text \<open>The Harten-Hyman loop over all eigenvalues, then the pass that takes absolute values.\<close>

definition entropy_fix :: "nat \<Rightarrow> vec \<Rightarrow> vec \<Rightarrow> vec" where
  "entropy_fix n Epsilon Lambda =
     for_loop 0 n (\<lambda>iVar L.
        if \<bar>L iVar\<bar> < Epsilon iVar
        then L(iVar := (L iVar * L iVar + Epsilon iVar * Epsilon iVar) / (2 * Epsilon iVar))
        else L(iVar := \<bar>L iVar\<bar>)) Lambda"

definition abs_pass :: "nat \<Rightarrow> vec \<Rightarrow> vec" where
  "abs_pass n Lambda = for_loop 0 n (\<lambda>iVar L. L(iVar := \<bar>L iVar\<bar>)) Lambda"

definition Roe_Lambda_corrected :: "'a config_scheme \<Rightarrow> 'k kernel_scheme \<Rightarrow> 'b edge_scheme \<Rightarrow> vec" where
  "Roe_Lambda_corrected c k e =
     abs_pass (nVar c) (entropy_fix (nVar c) (Roe_Epsilon c k e) (Roe_Lambda c k e))"


text \<open>
  The correction with the index each mode was meant to read: entry \<open>i\<close> of \<^verbatim>\<open>Epsilon\<close>
  from entry \<open>i\<close> of \<^verbatim>\<open>Lambda\<close>. It is not in the program; it is what the spec calls
  the intended per-mode index, for comparison with \<open>Roe_Epsilon\<close>.
\<close>

definition Roe_Epsilon_intended :: "'a config_scheme \<Rightarrow> 'k kernel_scheme \<Rightarrow> 'b edge_scheme \<Rightarrow> vec" where
  "Roe_Epsilon_intended c k e =
     (let Lambda = Roe_Lambda c k e;
          ProjVelocity_i = Roe_ProjVelocity_i c e;
          ProjVelocity_j = Roe_ProjVelocity_j c e;
          E1 = for_loop 0 (nSpecies c) (\<lambda>iSpecies E. E(iSpecies :=
                 4 * max 0 (max (Lambda iSpecies - ProjVelocity_i) (ProjVelocity_j - Lambda iSpecies)))) (\<lambda>_. 0);
          E2 = for_loop 0 (nDim c - 1) (\<lambda>iDim E. E(nSpecies c + iDim :=
                 4 * max 0 (max (Lambda (nSpecies c + iDim) - ProjVelocity_i)
                                (ProjVelocity_j - Lambda (nSpecies c + iDim))))) E1;
          E3 = E2(nSpecies c + nDim c - 1 :=
                 4 * max 0 (max (Lambda (nSpecies c + nDim c - 1) - (ProjVelocity_i + V_i e (A_INDEX c)))
                                ((ProjVelocity_j + V_j e (A_INDEX c)) - Lambda (nSpecies c + nDim c - 1))));
          E4 = E3(nSpecies c + nDim c :=
                 4 * max 0 (max (Lambda (nSpecies c + nDim c) - (ProjVelocity_i - V_i e (A_INDEX c)))
                                ((ProjVelocity_j - V_j e (A_INDEX c)) - Lambda (nSpecies c + nDim c))))
      in E4(nSpecies c + nDim c + 1 :=
                 4 * max 0 (max (Lambda (nSpecies c + nDim c + 1) - ProjVelocity_i)
                                (ProjVelocity_j - Lambda (nSpecies c + nDim c + 1)))))"

definition Roe_Lambda_corrected_intended ::
  "'a config_scheme \<Rightarrow> 'k kernel_scheme \<Rightarrow> 'b edge_scheme \<Rightarrow> vec" where
  "Roe_Lambda_corrected_intended c k e =
     abs_pass (nVar c) (entropy_fix (nVar c) (Roe_Epsilon_intended c k e) (Roe_Lambda c k e))"

subsection \<open>The projected inviscid flux\<close>


subsection \<open>\<^verbatim>\<open>CCentLax_TNE2::ComputeResidual\<close>\<close>

text \<open>
  The members the caller sets for the centered scheme: the spectral radii of the two cells,
  their neighbour counts, and the dissipation coefficient read at construction.
  \<^verbatim>\<open>EPS\<close> is a constant of the code base declared outside this file.
\<close>

record cent_edge = edge +
  Lambda_i :: real
  Lambda_j :: real
  Neighbor_i :: nat
  Neighbor_j :: nat
  Param_Kappa_0 :: real
  EPS :: real




text \<open>
  The block \<^verbatim>\<open>Compute the local spectral radius and the stretching factor\<close>. The projected
  velocities are taken with the normal itself, not the unit normal. \<^verbatim>\<open>Area\<close> is set to 0
  together with them, the loop does not touch it, and its square root is taken after the
  loop.
\<close>

definition Lax_ProjVel_i :: "'a config_scheme \<Rightarrow> 'b edge_scheme \<Rightarrow> real" where
  "Lax_ProjVel_i c e = for_loop 0 (nDim c) (\<lambda>iDim p. p + V_i e (VEL_INDEX c + iDim) * Normal e iDim) 0"

definition Lax_ProjVel_j :: "'a config_scheme \<Rightarrow> 'b edge_scheme \<Rightarrow> real" where
  "Lax_ProjVel_j c e = for_loop 0 (nDim c) (\<lambda>iDim p. p + V_j e (VEL_INDEX c + iDim) * Normal e iDim) 0"

definition Lax_Area :: "'a config_scheme \<Rightarrow> 'b edge_scheme \<Rightarrow> real" where
  "Lax_Area c e = (let Area = 0; Area = for_loop 0 (nDim c) (\<lambda>iDim Area. Area) Area in sqrt Area)"

definition Local_Lambda_i :: "'a config_scheme \<Rightarrow> 'b edge_scheme \<Rightarrow> real" where
  "Local_Lambda_i c e = \<bar>Lax_ProjVel_i c e\<bar> + V_i e (A_INDEX c) * Lax_Area c e"

definition Local_Lambda_j :: "'a config_scheme \<Rightarrow> 'b edge_scheme \<Rightarrow> real" where
  "Local_Lambda_j c e = \<bar>Lax_ProjVel_j c e\<bar> + V_j e (A_INDEX c) * Lax_Area c e"

definition MeanLambda :: "'a config_scheme \<Rightarrow> 'b edge_scheme \<Rightarrow> real" where
  "MeanLambda c e = 0.5 * (Local_Lambda_i c e + Local_Lambda_j c e)"





text \<open>
  The spectral radius as the spec has it, with the face area (the norm of the normal) in
  place of the program's \<^verbatim>\<open>Area\<close>. It is not in the program; it is stated for comparison.
\<close>

definition Local_Lambda_with_face_area :: "'a config_scheme \<Rightarrow> vec \<Rightarrow> 'b edge_scheme \<Rightarrow> real" where
  "Local_Lambda_with_face_area c V e =
     \<bar>for_loop 0 (nDim c) (\<lambda>iDim p. p + V (VEL_INDEX c + iDim) * Normal e iDim) 0\<bar>
       + V (A_INDEX c) * face_Area c (Normal e)"

subsection \<open>\<^verbatim>\<open>CUpwRoe_TNE2::ComputeResidual\<close>: the flux\<close>

text \<open>
  \<^verbatim>\<open>Proj_ModJac_Tensor_ij\<close>: entry \<open>(i, j)\<close> of the product of \<^verbatim>\<open>P_Tensor\<close>, the diagonal
  matrix of \<^verbatim>\<open>Lambda\<close> and \<^verbatim>\<open>invP_Tensor\<close>, summed over \<^verbatim>\<open>kVar\<close>.
\<close>

definition Proj_ModJac_Tensor :: "nat \<Rightarrow> mat \<Rightarrow> vec \<Rightarrow> mat \<Rightarrow> nat \<Rightarrow> nat \<Rightarrow> real" where
  "Proj_ModJac_Tensor n P_Tensor Lambda invP_Tensor iVar jVar =
     for_loop 0 n (\<lambda>kVar s. s + P_Tensor iVar kVar * Lambda kVar * invP_Tensor kVar jVar) 0"



subsection \<open>\<^verbatim>\<open>CUpwMSW_TNE2::ComputeResidual\<close>\<close>

definition MSW_alpha :: real where "MSW_alpha = 5"
definition MSW_epsilon :: real where "MSW_epsilon = 0"

text \<open>The state weighting function \<^verbatim>\<open>w\<close>.\<close>

definition MSW_w :: "'a config_scheme \<Rightarrow> 'b edge_scheme \<Rightarrow> real" where
  "MSW_w c e =
     (let P_i = V_i e (P_INDEX c); P_j = V_j e (P_INDEX c);
          dp = \<bar>P_j - P_i\<bar> / min P_j P_i
      in 0.5 * (1 / ((MSW_alpha * dp) ^ 2 + 1)))"

text \<open>
  The weighted state of one side: \<open>onemw\<close> times that side plus \<open>w\<close> times the other side,
  for the first \<open>n\<close> entries.
\<close>

definition weighted_state :: "nat \<Rightarrow> real \<Rightarrow> vec \<Rightarrow> vec \<Rightarrow> vec" where
  "weighted_state n w X Y =
     for_loop 0 n (\<lambda>iVar S. S(iVar := (1 - w) * X iVar + w * Y iVar)) (\<lambda>_. 0)"

definition Ust_i :: "'a config_scheme \<Rightarrow> 'b edge_scheme \<Rightarrow> vec" where
  "Ust_i c e = weighted_state (nVar c) (MSW_w c e) (U_i e) (U_j e)"

definition Ust_j :: "'a config_scheme \<Rightarrow> 'b edge_scheme \<Rightarrow> vec" where
  "Ust_j c e = weighted_state (nVar c) (MSW_w c e) (U_j e) (U_i e)"

definition Vst_i :: "'a config_scheme \<Rightarrow> 'b edge_scheme \<Rightarrow> vec" where
  "Vst_i c e = weighted_state (nPrimVar c) (MSW_w c e) (V_i e) (V_j e)"

definition Vst_j :: "'a config_scheme \<Rightarrow> 'b edge_scheme \<Rightarrow> vec" where
  "Vst_j c e = weighted_state (nPrimVar c) (MSW_w c e) (V_j e) (V_i e)"

definition ProjVelst_i :: "'a config_scheme \<Rightarrow> 'b edge_scheme \<Rightarrow> real" where
  "ProjVelst_i c e =
     (1 - MSW_w c e) * ProjVel c (V_i e) (face_UnitNormal c (Normal e))
       + MSW_w c e * ProjVel c (V_j e) (face_UnitNormal c (Normal e))"

definition ProjVelst_j :: "'a config_scheme \<Rightarrow> 'b edge_scheme \<Rightarrow> real" where
  "ProjVelst_j c e =
     (1 - MSW_w c e) * ProjVel c (V_j e) (face_UnitNormal c (Normal e))
       + MSW_w c e * ProjVel c (V_i e) (face_UnitNormal c (Normal e))"

text \<open>
  The pressure derivatives at the weighted states. The program computes them
  (\<^verbatim>\<open>var->CalcdPdU(Vst_i, Evest_i, config, dPdUst_i)\<close>); no later statement reads them.
\<close>

definition dPdUst_i :: "'a config_scheme \<Rightarrow> 'k kernel_scheme \<Rightarrow> 'b edge_scheme \<Rightarrow> vec" where
  "dPdUst_i c k e =
     CalcdPdU k (Vst_i c e)
       (for_loop 0 (nSpecies c) (\<lambda>iSpecies E.
          E(iSpecies := CalcEve k (Vst_i c e (TVE_INDEX c)) iSpecies)) (\<lambda>_. 0))"

definition dPdUst_j :: "'a config_scheme \<Rightarrow> 'k kernel_scheme \<Rightarrow> 'b edge_scheme \<Rightarrow> vec" where
  "dPdUst_j c k e =
     CalcdPdU k (Vst_j c e)
       (for_loop 0 (nSpecies c) (\<lambda>iSpecies E.
          E(iSpecies := CalcEve k (Vst_j c e (TVE_INDEX c)) iSpecies)) (\<lambda>_. 0))"

text \<open>
  The split eigenvalues: \<^verbatim>\<open>Lambda_i\<close> (\<open>Lambda+\<close>, the square root added) and \<^verbatim>\<open>Lambda_j\<close>
  (\<open>Lambda-\<close>, the square root subtracted); \<open>pv\<close> is the projected velocity and \<open>a\<close> the
  sound speed of the weighted state.
\<close>

definition MSW_Lambda_i :: "'a config_scheme \<Rightarrow> real \<Rightarrow> real \<Rightarrow> vec" where
  "MSW_Lambda_i c pv a =
     (let L = for_loop 0 (nSpecies c + nDim c - 1) (\<lambda>iSpecies L.
                L(iSpecies := 0.5 * (pv + sqrt (pv * pv + MSW_epsilon * MSW_epsilon)))) (\<lambda>_. 0);
          L = L(nSpecies c + nDim c - 1 :=
                0.5 * (pv + a + sqrt ((pv + a) * (pv + a) + MSW_epsilon * MSW_epsilon)));
          L = L(nSpecies c + nDim c :=
                0.5 * (pv - a + sqrt ((pv - a) * (pv - a) + MSW_epsilon * MSW_epsilon)))
      in L(nSpecies c + nDim c + 1 :=
                0.5 * (pv + sqrt (pv * pv + MSW_epsilon * MSW_epsilon))))"

definition MSW_Lambda_j :: "'a config_scheme \<Rightarrow> real \<Rightarrow> real \<Rightarrow> vec" where
  "MSW_Lambda_j c pv a =
     (let L = for_loop 0 (nSpecies c + nDim c - 1) (\<lambda>iSpecies L.
                L(iSpecies := 0.5 * (pv - sqrt (pv * pv + MSW_epsilon * MSW_epsilon)))) (\<lambda>_. 0);
          L = L(nSpecies c + nDim c - 1 :=
                0.5 * (pv + a - sqrt ((pv + a) * (pv + a) + MSW_epsilon * MSW_epsilon)));
          L = L(nSpecies c + nDim c :=
                0.5 * (pv - a - sqrt ((pv - a) * (pv - a) + MSW_epsilon * MSW_epsilon)))
      in L(nSpecies c + nDim c + 1 :=
                0.5 * (pv - sqrt (pv * pv + MSW_epsilon * MSW_epsilon))))"

text \<open>
  The projected flux of one side: for every row the sum over \<^verbatim>\<open>jVar\<close> of
  \<^verbatim>\<open>Proj_ModJac_Tensor * U[jVar] * Area\<close>, added to the zeroed \<^verbatim>\<open>Fc\<close>.
\<close>

definition MSW_Fc :: "nat \<Rightarrow> mat \<Rightarrow> vec \<Rightarrow> mat \<Rightarrow> vec \<Rightarrow> real \<Rightarrow> vec" where
  "MSW_Fc n P_Tensor Lambda invP_Tensor U Area =
     for_loop 0 n (\<lambda>iVar Fc.
       for_loop 0 n (\<lambda>jVar Fc.
         Fc(iVar := Fc iVar + Proj_ModJac_Tensor n P_Tensor Lambda invP_Tensor iVar jVar * U jVar * Area))
         Fc) (\<lambda>_. 0)"

text \<open>
  The function. The tangent vectors \<^verbatim>\<open>l\<close> and \<^verbatim>\<open>m\<close> are members that this function does not
  set; they are arguments. The eigenvector matrices are built from the weighted state
  \<^verbatim>\<open>Ust\<close>, \<^verbatim>\<open>Vst\<close> and from \<^verbatim>\<open>dPdU_i\<close> (left) and \<^verbatim>\<open>dPdU_j\<close> (right).
\<close>

definition CUpwMSW_ComputeResidual ::
  "'a config_scheme \<Rightarrow> 'k kernel_scheme \<Rightarrow> 'b edge_scheme \<Rightarrow> vec \<Rightarrow> vec \<Rightarrow> vec \<Rightarrow> vec" where
  "CUpwMSW_ComputeResidual c k e l m val_residual =
     (let Area = face_Area c (Normal e);
          UnitNormal = face_UnitNormal c (Normal e);
          Lambda_i = MSW_Lambda_i c (ProjVelst_i c e) (Vst_i c e (A_INDEX c));
          P_Tensor = GetPMatrix k (Ust_i c e) (Vst_i c e) (dPdU_i e) UnitNormal l m;
          invP_Tensor = GetPMatrix_inv k (Ust_i c e) (Vst_i c e) (dPdU_i e) UnitNormal l m;
          Fc_i = MSW_Fc (nVar c) P_Tensor Lambda_i invP_Tensor (U_i e) Area;
          Lambda_j = MSW_Lambda_j c (ProjVelst_j c e) (Vst_j c e (A_INDEX c));
          P_Tensor = GetPMatrix k (Ust_j c e) (Vst_j c e) (dPdU_j e) UnitNormal l m;
          invP_Tensor = GetPMatrix_inv k (Ust_j c e) (Vst_j c e) (dPdU_j e) UnitNormal l m;
          Fc_j = MSW_Fc (nVar c) P_Tensor Lambda_j invP_Tensor (U_j e) Area
      in for_loop 0 (nVar c) (\<lambda>iVar res. res(iVar := Fc_i iVar + Fc_j iVar)) val_residual)"

text \<open>
  The flux as the spec describes it, with the eigenvector matrices of each side built from
  the pressure derivatives at the weighted state (\<^verbatim>\<open>dPdUst_i\<close>, \<^verbatim>\<open>dPdUst_j\<close>). It is not
  the program; it is stated for comparison with \<open>CUpwMSW_ComputeResidual\<close>.
\<close>

definition MSW_residual_with_star_dPdU ::
  "'a config_scheme \<Rightarrow> 'k kernel_scheme \<Rightarrow> 'b edge_scheme \<Rightarrow> vec \<Rightarrow> vec \<Rightarrow> vec \<Rightarrow> vec" where
  "MSW_residual_with_star_dPdU c k e l m val_residual =
     (let Area = face_Area c (Normal e);
          UnitNormal = face_UnitNormal c (Normal e);
          Lambda_i = MSW_Lambda_i c (ProjVelst_i c e) (Vst_i c e (A_INDEX c));
          P_Tensor = GetPMatrix k (Ust_i c e) (Vst_i c e) (dPdUst_i c k e) UnitNormal l m;
          invP_Tensor = GetPMatrix_inv k (Ust_i c e) (Vst_i c e) (dPdUst_i c k e) UnitNormal l m;
          Fc_i = MSW_Fc (nVar c) P_Tensor Lambda_i invP_Tensor (U_i e) Area;
          Lambda_j = MSW_Lambda_j c (ProjVelst_j c e) (Vst_j c e (A_INDEX c));
          P_Tensor = GetPMatrix k (Ust_j c e) (Vst_j c e) (dPdUst_j c k e) UnitNormal l m;
          invP_Tensor = GetPMatrix_inv k (Ust_j c e) (Vst_j c e) (dPdUst_j c k e) UnitNormal l m;
          Fc_j = MSW_Fc (nVar c) P_Tensor Lambda_j invP_Tensor (U_j e) Area
      in for_loop 0 (nVar c) (\<lambda>iVar res. res(iVar := Fc_i iVar + Fc_j iVar)) val_residual)"

subsection \<open>\<^verbatim>\<open>CUpwAUSM_TNE2::ComputeResidual\<close>\<close>











subsection \<open>\<^verbatim>\<open>CUpwAUSMPLUSUP2_TNE2::ComputeResidual\<close>\<close>





















subsection \<open>\<^verbatim>\<open>GetViscousProjFlux\<close> of the two average-gradient schemes\<close>

text \<open>
  The process can end inside the flux: \<^verbatim>\<open>exit(1)\<close> after a message on \<^verbatim>\<open>cout\<close>. The flux
  returns a sum: the failure on the left, the projected flux on the right. A loop whose body
  can fail stops at the first failure.
\<close>

datatype failure = ProcessExit string int

definition for_loop_fail ::
  "nat \<Rightarrow> nat \<Rightarrow> (nat \<Rightarrow> 's \<Rightarrow> failure + 's) \<Rightarrow> 's \<Rightarrow> failure + 's" where
  "for_loop_fail lo hi body s =
     fold (\<lambda>i r. case r of Inl f \<Rightarrow> Inl f | Inr s \<Rightarrow> body i s) [lo..<hi] (Inr s)"

definition upd2 :: "mat \<Rightarrow> nat \<Rightarrow> nat \<Rightarrow> real \<Rightarrow> mat" where
  "upd2 M i j v = M(i := (M i)(j := v))"

definition TWO3 :: real where
  "TWO3 = 2 / 3"


definition visc_nHeavy :: "'a config_scheme \<Rightarrow> nat" where
  "visc_nHeavy c = (if ionization c then nSpecies c - 1 else nSpecies c)"

definition visc_hs :: "'a config_scheme \<Rightarrow> 'k kernel_scheme \<Rightarrow> vec \<Rightarrow> vec \<Rightarrow> vec" where
  "visc_hs c k val_primvar val_eve =
     for_loop 0 (nSpecies c) (\<lambda>iSpecies hs.
       hs(iSpecies := CalcHs k (val_primvar (T_INDEX c)) (val_eve iSpecies) iSpecies)) (\<lambda>_. 0)"

definition visc_div_vel :: "'a config_scheme \<Rightarrow> mat \<Rightarrow> real" where
  "visc_div_vel c GV = for_loop 0 (nDim c) (\<lambda>iDim d. d + GV (VEL_INDEX c + iDim) iDim) 0"

definition visc_Vector :: "'a config_scheme \<Rightarrow> vec \<Rightarrow> mat \<Rightarrow> vec \<Rightarrow> vec" where
  "visc_Vector c val_primvar GV Ds =
     for_loop 0 (nDim c) (\<lambda>iDim Vector.
       for_loop 0 (visc_nHeavy c) (\<lambda>iSpecies Vector.
         Vector(iDim := Vector iDim
                  + val_primvar (RHO_INDEX c) * Ds iSpecies * GV (RHOS_INDEX c + iSpecies) iDim))
         (Vector(iDim := 0))) (\<lambda>_. 0)"

definition visc_tau :: "'a config_scheme \<Rightarrow> mat \<Rightarrow> real \<Rightarrow> mat" where
  "visc_tau c val_gradprimvar mu =
     (let tau = for_loop 0 (nDim c) (\<lambda>iDim tau.
                  for_loop 0 (nDim c) (\<lambda>jDim tau. upd2 tau iDim jDim 0) tau) (\<lambda>_ _. 0)
      in for_loop 0 (nDim c) (\<lambda>iDim tau.
           (let tau = for_loop 0 (nDim c) (\<lambda>jDim tau.
                        upd2 tau iDim jDim (tau iDim jDim
                          + mu * (val_gradprimvar (VEL_INDEX c + jDim) iDim
                                  + val_gradprimvar (VEL_INDEX c + iDim) jDim))) tau
            in upd2 tau iDim iDim (tau iDim iDim - TWO3 * mu * visc_div_vel c val_gradprimvar))) tau)"

text \<open>
  One pass of the loop \<^verbatim>\<open>Populate entries in the viscous flux vector\<close> over \<^verbatim>\<open>iDim\<close>: the
  species diffusion, the guard for an ionized mixture, the shear stress, the diffusion and
  the heat transfer terms.
\<close>

definition visc_populate ::
  "'a config_scheme \<Rightarrow> vec \<Rightarrow> mat \<Rightarrow> vec \<Rightarrow> vec \<Rightarrow> real \<Rightarrow> real \<Rightarrow> vec \<Rightarrow> vec \<Rightarrow> mat
     \<Rightarrow> nat \<Rightarrow> mat \<Rightarrow> failure + mat" where
  "visc_populate c V GV val_eve Ds ktr kve hs Vector tau iDim Flux_Tensor =
     (let rho = V (RHO_INDEX c);
          FT = for_loop 0 (visc_nHeavy c) (\<lambda>iSpecies FT.
                 upd2 FT iSpecies iDim
                   (rho * Ds iSpecies * GV (RHOS_INDEX c + iSpecies) iDim
                      - V (RHOS_INDEX c + iSpecies) * Vector iDim)) Flux_Tensor
      in if ionization c then
           Inl (ProcessExit ''GetViscProjFlux -- NEED TO IMPLEMENT IONIZED FUNCTIONALITY!!!'' 1)
         else
          (let FT = upd2 FT (nSpecies c + nDim c) iDim 0;
               FT = for_loop 0 (nDim c) (\<lambda>jDim FT.
                      (let FT = upd2 FT (nSpecies c + jDim) iDim (tau iDim jDim)
                       in upd2 FT (nSpecies c + nDim c) iDim
                            (FT (nSpecies c + nDim c) iDim + tau iDim jDim * V (VEL_INDEX c + jDim)))) FT;
               FT = for_loop 0 (visc_nHeavy c) (\<lambda>iSpecies FT.
                      (let FT = upd2 FT (nSpecies c + nDim c) iDim
                                  (FT (nSpecies c + nDim c) iDim + FT iSpecies iDim * hs iSpecies)
                       in upd2 FT (nSpecies c + nDim c + 1) iDim
                            (FT (nSpecies c + nDim c + 1) iDim + FT iSpecies iDim * val_eve iSpecies))) FT;
               FT = upd2 FT (nSpecies c + nDim c) iDim
                      (FT (nSpecies c + nDim c) iDim + ktr * GV (T_INDEX c) iDim + kve * GV (TVE_INDEX c) iDim)
           in Inr (upd2 FT (nSpecies c + nDim c + 1) iDim
                     (FT (nSpecies c + nDim c + 1) iDim + kve * GV (TVE_INDEX c) iDim))))"

text \<open>
  The function. The initialising loop sets \<^verbatim>\<open>Proj_Flux_Tensor\<close> and \<^verbatim>\<open>Flux_Tensor\<close> to 0,
  so both start as the zero arrays.
\<close>

definition GetViscousProjFlux ::
  "'a config_scheme \<Rightarrow> 'k kernel_scheme \<Rightarrow> vec \<Rightarrow> mat \<Rightarrow> vec \<Rightarrow> vec \<Rightarrow> vec \<Rightarrow> real \<Rightarrow> real \<Rightarrow> real
     \<Rightarrow> failure + vec" where
  "GetViscousProjFlux c k val_primvar val_gradprimvar val_eve val_normal val_diffusioncoeff
       val_viscosity val_therm_conductivity val_therm_conductivity_ve =
     (let Ds = val_diffusioncoeff; mu = val_viscosity;
          ktr = val_therm_conductivity; kve = val_therm_conductivity_ve;
          V = val_primvar; GV = val_gradprimvar;
          hs = visc_hs c k val_primvar val_eve;
          Vector = visc_Vector c V GV Ds;
          tau = visc_tau c val_gradprimvar mu
      in case for_loop_fail 0 (nDim c)
                (visc_populate c V GV val_eve Ds ktr kve hs Vector tau) (\<lambda>_ _. 0) of
           Inl f \<Rightarrow> Inl f
         | Inr Flux_Tensor \<Rightarrow>
             Inr (for_loop 0 (nVar c) (\<lambda>iVar P.
                    for_loop 0 (nDim c) (\<lambda>iDim P.
                      P(iVar := P iVar + Flux_Tensor iVar iDim * val_normal iDim)) P) (\<lambda>_. 0)))"

text \<open>The two classes define the function with the same body.\<close>

definition CAvgGrad_GetViscousProjFlux ::
  "'a config_scheme \<Rightarrow> 'k kernel_scheme \<Rightarrow> vec \<Rightarrow> mat \<Rightarrow> vec \<Rightarrow> vec \<Rightarrow> vec \<Rightarrow> real \<Rightarrow> real \<Rightarrow> real
     \<Rightarrow> failure + vec" where
  "CAvgGrad_GetViscousProjFlux = GetViscousProjFlux"

definition CAvgGradCorrected_GetViscousProjFlux ::
  "'a config_scheme \<Rightarrow> 'k kernel_scheme \<Rightarrow> vec \<Rightarrow> mat \<Rightarrow> vec \<Rightarrow> vec \<Rightarrow> vec \<Rightarrow> real \<Rightarrow> real \<Rightarrow> real
     \<Rightarrow> failure + vec" where
  "CAvgGradCorrected_GetViscousProjFlux = GetViscousProjFlux"

subsection \<open>\<^verbatim>\<open>CAvgGrad_TNE2::ComputeResidual\<close> and \<^verbatim>\<open>CAvgGradCorrected_TNE2::ComputeResidual\<close>\<close>















subsection \<open>\<^verbatim>\<open>CSource_TNE2::GetKeqConstants\<close>\<close>

text \<open>
  \<^verbatim>\<open>pwr\<close>, \<^verbatim>\<open>tbl_offset\<close> and \<^verbatim>\<open>iIndex\<close> are \<^verbatim>\<open>unsigned short\<close>: 16-bit words. The
  assignment \<^verbatim>\<open>pwr = floor(log10(N))\<close> converts a \<^verbatim>\<open>double\<close>; the conversion is defined
  only when the value lies in \<open>0 .. 65535\<close>, and \<^verbatim>\<open>log10\<close> only has a finite value for
  positive \<open>N\<close>. Outside of that the model returns \<open>None\<close>.
\<close>

definition double_to_ushort :: "real \<Rightarrow> 16 word option" where
  "double_to_ushort x =
     (if 0 \<le> \<lfloor>x\<rfloor> \<and> \<lfloor>x\<rfloor> < 65536 then Some (word_of_int \<lfloor>x\<rfloor>) else None)"

definition mixture_N :: "'a gas_scheme \<Rightarrow> 'b edge_scheme \<Rightarrow> real" where
  "mixture_N c e =
     for_loop 0 (nSpecies c)
       (\<lambda>iSpecies N. N + V_i e iSpecies / Molar_Mass c iSpecies * AVOGAD_CONSTANT c) 0"

definition Keq_pwr :: "real \<Rightarrow> 16 word option" where
  "Keq_pwr N = (if N \<le> 0 then None else double_to_ushort (real_of_int \<lfloor>log 10 N\<rfloor>))"

definition GetKeqConstants :: "'a gas_scheme \<Rightarrow> 'b edge_scheme \<Rightarrow> vec \<Rightarrow> nat \<Rightarrow> vec option" where
  "GetKeqConstants c e A val_Reaction =
     (let RxnConstantTable = ChemistryEquilConstants c val_Reaction;
          N = mixture_N c e;
          N = N * (1 / 10 ^ 6);
          tbl_offset = (14 :: 16 word)
      in case Keq_pwr N of
           None \<Rightarrow> None
         | Some pwr \<Rightarrow>
            (let iIndex = pwr - tbl_offset in
             if iIndex \<le> 0 then
               Some (for_loop 0 5 (\<lambda>ii A. A(ii := RxnConstantTable 0 ii)) A)
             else if iIndex \<ge> 5 then
               Some (for_loop 0 5 (\<lambda>ii A. A(ii := RxnConstantTable 5 ii)) A)
             else
              (let (tmp1, tmp2) = for_loop 0 (unat pwr)
                     (\<lambda>ii (tmp1, tmp2). (tmp1 * 10, tmp2 * 10)) (1, 1);
                   tmp2 = tmp2 * 10
               in Some (for_loop 0 5 (\<lambda>ii A. A(ii :=
                    (RxnConstantTable (unat iIndex + 1) ii - RxnConstantTable (unat iIndex) ii)
                      / (tmp2 - tmp1) * (N - tmp1)
                    + RxnConstantTable (unat iIndex) ii)) A))))"

subsection \<open>\<^verbatim>\<open>CSource_TNE2::ComputeChemistry\<close>: the residual\<close>

definition T_min :: real where "T_min = 800"
definition chem_epsilon :: real where "chem_epsilon = 80"

text \<open>
  The forward and backward rates of one reaction, up to \<^verbatim>\<open>bkwRxn = 1000.0 * kb * bkwRxn\<close>;
  \<open>A\<close> holds the coefficients that \<^verbatim>\<open>GetKeqConstants\<close> has written.
\<close>

definition reaction_rates :: "'a gas_scheme \<Rightarrow> 'b edge_scheme \<Rightarrow> vec \<Rightarrow> nat \<Rightarrow> real \<times> real" where
  "reaction_rates c e A iReaction =
     (let T = V_i e (T_INDEX c); Tve = V_i e (TVE_INDEX c);
          Ms = Molar_Mass c; RxnMap = Reaction_Map c;
          af = RxnTcf_a c iReaction; bf = RxnTcf_b c iReaction;
          ab = RxnTcb_a c iReaction; bb = RxnTcb_b c iReaction;
          Trxnf = T powr af * Tve powr bf;
          Trxnb = T powr ab * Tve powr bb;
          Thf = 0.5 * (Trxnf + T_min + sqrt ((Trxnf - T_min) * (Trxnf - T_min) + chem_epsilon * chem_epsilon));
          Thb = 0.5 * (Trxnb + T_min + sqrt ((Trxnb - T_min) * (Trxnb - T_min) + chem_epsilon * chem_epsilon));
          Cf = ArrheniusCoeff c iReaction;
          eta = ArrheniusEta c iReaction;
          theta = ArrheniusTheta c iReaction;
          Keq = exp (A 0 * (Thb / 10^4) + A 1 + A 2 * ln (10^4 / Thb)
                     + A 3 * (10^4 / Thb) + A 4 * (10^4 / Thb) * (10^4 / Thb));
          kf = Cf * exp (eta * ln Thf) * exp (- theta / Thf);
          kfb = Cf * exp (eta * ln Thb) * exp (- theta / Thb);
          kb = kfb / Keq;
          (fwdRxn, bkwRxn) = for_loop 0 3 (\<lambda>ii (fwdRxn, bkwRxn).
             (let iSpecies = RxnMap iReaction 0 ii;
                  fwdRxn = (if iSpecies \<noteq> nSpecies c
                            then fwdRxn * (0.001 * U_i e iSpecies / Ms iSpecies) else fwdRxn);
                  jSpecies = RxnMap iReaction 1 ii;
                  bkwRxn = (if jSpecies \<noteq> nSpecies c
                            then bkwRxn * (0.001 * U_i e jSpecies / Ms jSpecies) else bkwRxn)
              in (fwdRxn, bkwRxn))) (1, 1)
      in (1000 * kf * fwdRxn, 1000 * kb * bkwRxn))"

text \<open>
  The loop \<^verbatim>\<open>for (ii = 0; ii < 3; ii++)\<close> that adds the production and destruction of one
  reaction to \<^verbatim>\<open>val_residual\<close>. Its body has two guarded blocks: the first adds the species
  of the product slot, the second subtracts the species of the reactant slot.
\<close>

definition add_product ::
  "'a gas_scheme \<Rightarrow> 'b edge_scheme \<Rightarrow> real \<Rightarrow> real \<Rightarrow> nat \<Rightarrow> vec \<Rightarrow> vec" where
  "add_product c e fwdRxn bkwRxn iSpecies val_residual =
     (if iSpecies \<noteq> nSpecies c then
        (let res = val_residual(iSpecies :=
                     val_residual iSpecies + Molar_Mass c iSpecies * (fwdRxn - bkwRxn) * Volume e)
         in res(nSpecies c + nDim c + 1 := res (nSpecies c + nDim c + 1)
                  + Molar_Mass c iSpecies * (fwdRxn - bkwRxn) * eve_i e iSpecies * Volume e))
      else val_residual)"

definition subtract_reactant ::
  "'a gas_scheme \<Rightarrow> 'b edge_scheme \<Rightarrow> real \<Rightarrow> real \<Rightarrow> nat \<Rightarrow> vec \<Rightarrow> vec" where
  "subtract_reactant c e fwdRxn bkwRxn iSpecies val_residual =
     (if iSpecies \<noteq> nSpecies c then
        (let res = val_residual(iSpecies :=
                     val_residual iSpecies - Molar_Mass c iSpecies * (fwdRxn - bkwRxn) * Volume e)
         in res(nSpecies c + nDim c + 1 := res (nSpecies c + nDim c + 1)
                  - Molar_Mass c iSpecies * (fwdRxn - bkwRxn) * eve_i e iSpecies * Volume e))
      else val_residual)"

definition reaction_update ::
  "'a gas_scheme \<Rightarrow> 'b edge_scheme \<Rightarrow> nat \<Rightarrow> real \<Rightarrow> real \<Rightarrow> vec \<Rightarrow> vec" where
  "reaction_update c e iReaction fwdRxn bkwRxn val_residual =
     for_loop 0 3 (\<lambda>ii res.
        subtract_reactant c e fwdRxn bkwRxn (Reaction_Map c iReaction 0 ii)
          (add_product c e fwdRxn bkwRxn (Reaction_Map c iReaction 1 ii) res)) val_residual"

text \<open>
  One pass of the loop over the reactions: the rates, the update of the residual, and the
  source term. The state is \<^verbatim>\<open>(A, val_residual, val_source)\<close>.
\<close>

definition ComputeChemistry_reaction ::
  "'a gas_scheme \<Rightarrow> 'b edge_scheme \<Rightarrow> nat \<Rightarrow> vec \<times> vec \<times> vec \<Rightarrow> (vec \<times> vec \<times> vec) option" where
  "ComputeChemistry_reaction c e iReaction s =
     (case s of (A, val_residual, val_source) \<Rightarrow>
        (case GetKeqConstants c e A iReaction of
           None \<Rightarrow> None
         | Some A \<Rightarrow>
            (let (fwdRxn, bkwRxn) = reaction_rates c e A iReaction;
                 res = reaction_update c e iReaction fwdRxn bkwRxn val_residual;
                 src = for_loop 0 (nVar c)
                         (\<lambda>iVar src. src(iVar := src iVar + res iVar / Volume e)) val_source
             in Some (A, res, src))))"

definition for_loop_option :: "nat \<Rightarrow> nat \<Rightarrow> (nat \<Rightarrow> 's \<Rightarrow> 's option) \<Rightarrow> 's \<Rightarrow> 's option" where
  "for_loop_option lo hi body s =
     fold (\<lambda>i r. case r of None \<Rightarrow> None | Some s \<Rightarrow> body i s) [lo..<hi] (Some s)"

definition ComputeChemistry ::
  "'a gas_scheme \<Rightarrow> 'b edge_scheme \<Rightarrow> vec \<Rightarrow> vec \<Rightarrow> vec \<Rightarrow> (vec \<times> vec \<times> vec) option" where
  "ComputeChemistry c e A val_residual val_source =
     (let res = for_loop 0 (nVar c) (\<lambda>iVar res. res(iVar := 0)) val_residual
      in for_loop_option 0 (nReactions c) (ComputeChemistry_reaction c e) (A, res, val_source))"

text \<open>The molar mass listed in the three slots of one side of a reaction, empty slots left out.\<close>

definition slot_mass :: "'a gas_scheme \<Rightarrow> nat \<Rightarrow> nat \<Rightarrow> real" where
  "slot_mass c iReaction side =
     (\<Sum>ii<3. if Reaction_Map c iReaction side ii \<noteq> nSpecies c
              then Molar_Mass c (Reaction_Map c iReaction side ii) else 0)"

subsection \<open>\<^verbatim>\<open>CSource_TNE2::ComputeVibRelaxation\<close>: relaxation times and residual\<close>

definition vib_conc :: "'a gas_scheme \<Rightarrow> 'b edge_scheme \<Rightarrow> real" where
  "vib_conc c e =
     for_loop 0 (nSpecies c)
       (\<lambda>iSpecies conc. conc + V_i e (RHOS_INDEX c + iSpecies) / Molar_Mass c iSpecies) 0"

definition vib_N :: "'a gas_scheme \<Rightarrow> 'b edge_scheme \<Rightarrow> real" where
  "vib_N c e =
     for_loop 0 (nSpecies c)
       (\<lambda>iSpecies N. N + V_i e (RHOS_INDEX c + iSpecies) / Molar_Mass c iSpecies * AVOGAD_CONSTANT c) 0"

text \<open>The mole fractions \<^verbatim>\<open>X\<close>.\<close>

definition vib_X :: "'a gas_scheme \<Rightarrow> 'b edge_scheme \<Rightarrow> vec" where
  "vib_X c e =
     for_loop 0 (nSpecies c)
       (\<lambda>iSpecies X. X(iSpecies :=
          (V_i e (RHOS_INDEX c + iSpecies) / Molar_Mass c iSpecies) / vib_conc c e)) (\<lambda>_. 0)"

text \<open>The entry that the inner loop writes to \<^verbatim>\<open>tau_sr[iSpecies][jSpecies]\<close>.\<close>

definition tau_sr :: "'a gas_scheme \<Rightarrow> 'b edge_scheme \<Rightarrow> nat \<Rightarrow> nat \<Rightarrow> real" where
  "tau_sr c e iSpecies jSpecies =
     (let Ms = Molar_Mass c; thetav = CharVibTemp c;
          P = V_i e (P_INDEX c); T = V_i e (T_INDEX c);
          mu = Ms iSpecies * Ms jSpecies / (Ms iSpecies + Ms jSpecies);
          A_sr = 1.16 * (1 / 10^3) * sqrt mu * thetav iSpecies powr (4 / 3);
          B_sr = 0.015 * mu powr 0.25
      in 101325 / P * exp (A_sr * (T powr (- 1 / 3) - B_sr) - 18.42))"

text \<open>The Millikan-White time \<^verbatim>\<open>tauMW[iSpecies] = num / denom\<close>.\<close>

definition tauMW :: "'a gas_scheme \<Rightarrow> 'b edge_scheme \<Rightarrow> nat \<Rightarrow> real" where
  "tauMW c e iSpecies =
     (let (num, denom) = for_loop 0 (nSpecies c)
            (\<lambda>jSpecies (num, denom).
               (num + vib_X c e jSpecies, denom + vib_X c e jSpecies / tau_sr c e iSpecies jSpecies))
            (0, 0)
      in num / denom)"

text \<open>The Park limiting cross section time \<^verbatim>\<open>tauP[iSpecies]\<close>.\<close>

definition tauP :: "'a gas_scheme \<Rightarrow> 'b edge_scheme \<Rightarrow> nat \<Rightarrow> real" where
  "tauP c e iSpecies =
     (let T = V_i e (T_INDEX c);
          Ru = 1000 * UNIVERSAL_GAS_CONSTANT c;
          Cs = sqrt ((8 * Ru * T) / (PI_NUMBER c * Molar_Mass c iSpecies));
          sig_s = (1 / 10^20) * (5 * 10^4 * (5 * 10^4)) / (T * T)
      in 1 / (sig_s * Cs * vib_N c e))"

definition taus :: "'a gas_scheme \<Rightarrow> 'b edge_scheme \<Rightarrow> nat \<Rightarrow> real" where
  "taus c e iSpecies = tauMW c e iSpecies + tauP c e iSpecies"

definition ComputeVibRelaxation ::
  "'a gas_scheme \<Rightarrow> 'k kernel_scheme \<Rightarrow> 'b edge_scheme \<Rightarrow> vec \<Rightarrow> vec \<Rightarrow> vec \<times> vec" where
  "ComputeVibRelaxation c k e val_residual val_source =
     (let res = for_loop 0 (nVar c) (\<lambda>iVar res. res(iVar := 0)) val_residual;
          T = V_i e (T_INDEX c);
          nEv = nSpecies c + nDim c + 1;
          res = for_loop 0 (nSpecies c) (\<lambda>iSpecies res.
                  (let rhos = V_i e (RHOS_INDEX c + iSpecies);
                       estar = CalcEve k T iSpecies
                   in res(nEv := res nEv
                        + rhos * (estar - eve_i e iSpecies) / taus c e iSpecies * Volume e))) res;
          src = for_loop 0 (nVar c) (\<lambda>iVar src. src(iVar := src iVar + res iVar / Volume e)) val_source
      in (res, src))"

subsection \<open>An edge whose two sides hold the same state\<close>







subsection \<open>Concrete inputs\<close>

definition vec_of :: "real list \<Rightarrow> vec" where
  "vec_of xs = (\<lambda>i. if i < length xs then xs ! i else 0)"

text \<open>
  The layout of the primitive vector as the spec lists it:
  species densities, \<open>T\<close>, \<open>Tve\<close>, the velocity, \<open>P\<close>, \<open>rho\<close>, \<open>h\<close>, \<open>a\<close>, \<open>rhoCvtr\<close>,
  \<open>rhoCvve\<close>, with \<^verbatim>\<open>nPrimVar = nSpecies + nDim + 8\<close> and as many gradient rows.
\<close>

definition TNE2_config :: "nat \<Rightarrow> nat \<Rightarrow> bool \<Rightarrow> config" where
  "TNE2_config nd ns ion =
     \<lparr> nDim = nd, nSpecies = ns, nPrimVar = ns + nd + 8, nPrimVarGrad = ns + nd + 8,
       ionization = ion,
       RHOS_INDEX = 0, T_INDEX = ns, TVE_INDEX = ns + 1, VEL_INDEX = ns + 2,
       P_INDEX = ns + nd + 2, RHO_INDEX = ns + nd + 3, H_INDEX = ns + nd + 4,
       A_INDEX = ns + nd + 5, RHOCVTR_INDEX = ns + nd + 6, RHOCVVE_INDEX = ns + nd + 7 \<rparr>"

text \<open>One species in two dimensions.\<close>

definition ex_config :: config where
  "ex_config = TNE2_config 2 1 False"

definition ex_kernel :: kernel where
  "ex_kernel = \<lparr> CalcEve = (\<lambda>T s. 0), CalcHs = (\<lambda>T eve s. 0), CalcdPdU = (\<lambda>V Eve i. 0),
     CreateBasis = (\<lambda>n. ((\<lambda>d. if d = 1 then 1 else 0), (\<lambda>d. 0))),
     GetPMatrix = (\<lambda>U V dPdU n l m i j. if i = j then 1 else 0),
     GetPMatrix_inv = (\<lambda>U V dPdU n l m i j. if i = j then 1 else 0) \<rparr>"

text \<open>
  Left: \<open>rho = 1\<close>, velocity \<open>(1, 0)\<close>, \<open>P = 1\<close>, \<open>h = 4\<close>, \<open>a = 1\<close>.
  Right: \<open>rho = 4\<close>, velocity \<open>(2, 0)\<close>, \<open>P = 2\<close>, \<open>h = 4\<close>, \<open>a = 1\<close>. The normal is \<open>(1, 0)\<close>.
\<close>

definition ex_edge :: edge where
  "ex_edge = \<lparr> Normal = vec_of [1, 0],
     U_i = vec_of [1, 1, 0, 3, 1],
     U_j = vec_of [4, 8, 0, 14, 1],
     V_i = vec_of [1, 300, 300, 1, 0, 1, 1, 4, 1, 1, 1],
     V_j = vec_of [4, 300, 300, 2, 0, 2, 4, 4, 1, 1, 1],
     dPdU_i = vec_of [0, 0, 0, 0, 0],
     dPdU_j = vec_of [0, 0, 0, 0, 0],
     eve_i = vec_of [1], eve_j = vec_of [1], Volume = 1 \<rparr>"

definition ex_cent_edge :: cent_edge where
  "ex_cent_edge = edge.extend ex_edge
     (cent_edge.fields 1 1 4 4 (1/2) (1/10^16))"

text \<open>
  Molecular and atomic nitrogen in two dimensions, with the dissociation
  \<open>N2 + N2 \<rightarrow> 2 N + N2\<close> as the only reaction. Row \<open>i\<close> of the equilibrium table holds
  \<open>10 i + j\<close> in column \<open>j\<close>, so that the rows can be told apart.
\<close>

definition ex_gas :: gas where
  "ex_gas = config.extend (TNE2_config 2 2 False)
     (gas.fields (vec_of [28, 14]) (vec_of [2, 0]) (vec_of [3395, 0]) (7/5) 5
        (83144598 / 10^7) (60221415 * 10^19) pi 1
        (\<lambda>r side ii. if side = 0 then [0, 0, 2] ! ii else [1, 1, 0] ! ii)
        (\<lambda>r i j. real (10 * i + j))
        (vec_of [1/2]) (vec_of [1/2]) (vec_of [1]) (vec_of [0])
        (vec_of [7 * 10^21]) (vec_of [-8/5]) (vec_of [113200]))"

text \<open>
  A thin gas: \<open>2.8e-8\<close> kg per cubic metre of molecular nitrogen at rest, which is a mixture number
  density of about \<open>6e11\<close> per cubic centimetre.
\<close>

definition ex_thin_edge :: edge where
  "ex_thin_edge = \<lparr> Normal = vec_of [1, 0],
     U_i = vec_of [28 / 10^9, 0, 0, 0, 1, 1],
     U_j = vec_of [28 / 10^9, 0, 0, 0, 1, 1],
     V_i = vec_of [28 / 10^9, 0, 10000, 10000, 0, 0, 1, 28 / 10^9, 1, 1, 1, 1],
     V_j = vec_of [28 / 10^9, 0, 10000, 10000, 0, 0, 1, 28 / 10^9, 1, 1, 1, 1],
     dPdU_i = vec_of [0, 0, 0, 0, 0, 0],
     dPdU_j = vec_of [0, 0, 0, 0, 0, 0],
     eve_i = vec_of [1, 1], eve_j = vec_of [1, 1], Volume = 1 \<rparr>"

text \<open>
  A kernel whose right eigenvector matrix reads the pressure derivative it is handed: the
  identity scaled by \<open>1 + dPdU[0]\<close>. Its \<^verbatim>\<open>CalcdPdU\<close> returns 1 in every entry, while the
  node values \<^verbatim>\<open>dPdU_i\<close>, \<^verbatim>\<open>dPdU_j\<close> of the example edge are 0.
\<close>

definition ex_kernel_dPdU :: kernel where
  "ex_kernel_dPdU = ex_kernel \<lparr> CalcdPdU := (\<lambda>V Eve i. 1),
     GetPMatrix := (\<lambda>U V dPdU n l m i j. if i = j then 1 + dPdU 0 else 0),
     GetPMatrix_inv := (\<lambda>U V dPdU n l m i j. if i = j then 1 else 0) \<rparr>"









section \<open>Properties\<close>

subsection \<open>Loops\<close>

lemma for_loop_empty: "hi \<le> lo \<Longrightarrow> for_loop lo hi body s = s"
  by (simp add: for_loop_def)

lemma for_loop_Suc: "lo \<le> hi \<Longrightarrow> for_loop lo (Suc hi) body s = body hi (for_loop lo hi body s)"
  by (simp add: for_loop_def)

lemma for_loop_acc: "for_loop 0 n (\<lambda>i s. s + f i) (s0::real) = s0 + (\<Sum>i<n. f i)"
  by (induction n) (simp_all add: for_loop_empty for_loop_Suc)

lemma for_loop_write:
  "for_loop 0 n (\<lambda>i A. A(off + i := g i)) A0 =
     (\<lambda>k. if off \<le> k \<and> k < off + n then g (k - off) else A0 k)"
  by (induction n) (auto simp: for_loop_empty for_loop_Suc fun_eq_iff)



lemma for_loop_write0:
  "for_loop 0 n (\<lambda>i A. A(i := g i)) A0 = (\<lambda>k. if k < n then g k else A0 k)"
  by (induction n) (auto simp: for_loop_empty for_loop_Suc fun_eq_iff)

lemma for_loop_pointwise:
  assumes "\<And>i A. body i A = A(i := h i (A i))"
  shows "for_loop 0 n body A0 = (\<lambda>k. if k < n then h k (A0 k) else A0 k)"
  by (induction n) (auto simp: for_loop_empty for_loop_Suc fun_eq_iff assms)

lemma entropy_fix_apply:
  "entropy_fix n E L k =
     (if k < n then (if \<bar>L k\<bar> < E k then (L k * L k + E k * E k) / (2 * E k) else \<bar>L k\<bar>) else L k)"
  unfolding entropy_fix_def
  by (subst for_loop_pointwise
        [where h = "\<lambda>i x. if \<bar>x\<bar> < E i then (x * x + E i * E i) / (2 * E i) else \<bar>x\<bar>"])
     simp_all

lemma abs_pass_apply: "abs_pass n L k = (if k < n then \<bar>L k\<bar> else L k)"
  unfolding abs_pass_def
  by (subst for_loop_pointwise [where h = "\<lambda>i x. \<bar>x\<bar>"]) simp_all

lemma for_loop_skip: "for_loop lo hi (\<lambda>i s. s) s0 = s0"
proof -
  have "fold (\<lambda>i s. s) xs s0 = s0" for xs :: "nat list"
    by (induction xs) simp_all
  then show ?thesis by (simp add: for_loop_def)
qed

lemma for_loop_acc2:
  "for_loop 0 n (\<lambda>i (a, b). (a + f i, b + g i)) (a0::real, b0::real)
     = (a0 + (\<Sum>i<n. f i), b0 + (\<Sum>i<n. g i))"
  by (induction n) (simp_all add: for_loop_empty for_loop_Suc)

lemma for_loop_measure:
  fixes S :: "'s \<Rightarrow> real"
  assumes "\<And>i s. i < n \<Longrightarrow> S (body i s) = S s + d i"
  shows "S (for_loop 0 n body s0) = S s0 + (\<Sum>i<n. d i)"
  using assms by (induction n) (simp_all add: for_loop_empty for_loop_Suc)


lemma for_loop_add_same:
  "for_loop 0 n (\<lambda>j A. A(i := A i + g j)) (A0::vec) = A0(i := A0 i + (\<Sum>j<n. g j))"
  by (induction n) (auto simp: for_loop_empty for_loop_Suc fun_eq_iff)


subsection \<open>The Roe eigenvalues and their entropy correction\<close>

lemma harten_bound:
  fixes x :: real
  assumes "\<bar>x\<bar> < eps"
  shows "\<bar>x\<bar> \<le> (x * x + eps * eps) / (2 * eps)"
proof -
  have pos: "0 < eps" using assms by linarith
  have "0 \<le> (eps - \<bar>x\<bar>) * (eps - \<bar>x\<bar>)" by simp
  then have "2 * eps * \<bar>x\<bar> \<le> x * x + eps * eps"
    by (simp add: algebra_simps)
  then show ?thesis using pos by (simp add: pos_le_divide_eq mult.commute)
qed

lemma Roe_Lambda_apply:
  assumes "1 \<le> nDim c"
  shows "Roe_Lambda c k e i =
     (if i = nSpecies c + nDim c + 1 then Roe_ProjVelocity c e
      else if i = nSpecies c + nDim c then Roe_ProjVelocity c e - RoeSoundSpeed c k e
      else if i = nSpecies c + nDim c - 1 then Roe_ProjVelocity c e + RoeSoundSpeed c k e
      else if i < nSpecies c + nDim c - 1 then Roe_ProjVelocity c e else 0)"
  using assms unfolding Roe_Lambda_def Let_def for_loop_write for_loop_write0
  by auto


lemma Roe_Lambda_low:
  assumes "1 \<le> nDim c" "i + 2 \<le> nSpecies c + nDim c"
  shows "Roe_Lambda c k e i = Roe_ProjVelocity c e"
  using assms by (auto simp: Roe_Lambda_apply)

lemma Roe_Epsilon_eq_intended:
  assumes "1 \<le> nSpecies c" "1 \<le> nDim c"
  shows "Roe_Epsilon c k e = Roe_Epsilon_intended c k e"
proof -
  note low = Roe_Lambda_low [OF assms(2)]
  have a: "Roe_Lambda c k e (iDim_left_over c) = Roe_ProjVelocity c e"
    using assms by (intro low) (simp add: iDim_left_over_def)
  have b: "Roe_Lambda c k e (nSpecies c + nDim c + 1) = Roe_ProjVelocity c e"
    using assms by (simp add: Roe_Lambda_apply)
  show ?thesis
    unfolding Roe_Epsilon_def Roe_Epsilon_intended_def Let_def for_loop_write for_loop_write0 a b
    by (auto simp: fun_eq_iff low)
qed


lemma Roe_Lambda_corrected_apply:
  "Roe_Lambda_corrected c k e i =
     (if i < nVar c
      then \<bar>if \<bar>Roe_Lambda c k e i\<bar> < Roe_Epsilon c k e i
            then (Roe_Lambda c k e i * Roe_Lambda c k e i + Roe_Epsilon c k e i * Roe_Epsilon c k e i)
                   / (2 * Roe_Epsilon c k e i)
            else \<bar>Roe_Lambda c k e i\<bar>\<bar>
      else Roe_Lambda c k e i)"
  by (simp add: Roe_Lambda_corrected_def abs_pass_apply entropy_fix_apply)

text \<open>
  Claim C4. In the Roe scheme, for every state pair and every eigenvalue index \<open>iVar\<close>
  below \<open>nVar\<close>, the value of \<^verbatim>\<open>Lambda[iVar]\<close> after the Harten-Hyman entropy correction and
  the pass that takes absolute values is at least the absolute value of the eigenvalue
  before the correction.
\<close>

theorem Roe_entropy_fix_bound:
  "iVar < nVar c \<Longrightarrow> \<bar>Roe_Lambda c k e iVar\<bar> \<le> Roe_Lambda_corrected c k e iVar"
  unfolding Roe_Lambda_corrected_def abs_pass_apply entropy_fix_apply
  using harten_bound [of "Roe_Lambda c k e iVar" "Roe_Epsilon c k e iVar"]
  by auto

theorem Roe_entropy_fix_bound_witness:
  "(3::nat) < nVar ex_config
     \<and> \<bar>Roe_Lambda ex_config ex_kernel ex_edge 3\<bar> \<le> Roe_Lambda_corrected ex_config ex_kernel ex_edge 3"
proof -
  have h: "(3::nat) < nVar ex_config"
    by (simp add: nVar_def ex_config_def TNE2_config_def)
  show ?thesis
    using h Roe_entropy_fix_bound [OF h, of ex_kernel ex_edge] by simp
qed

text \<open>
  Claim C9. In the entropy correction of the Roe scheme, every \<^verbatim>\<open>Epsilon\<close> entry computed
  from \<^verbatim>\<open>Lambda[iDim]\<close> with the left-over counter equals the value that the intended
  per-mode index gives, because every eigenvalue with index at most
  \<open>nSpecies + nDim - 2\<close> equals the Roe projected velocity; so the program and the
  intended version produce the same corrected \<^verbatim>\<open>Lambda\<close> for every state pair. The mixture
  has at least one species and the mesh at least one dimension.
\<close>

theorem Roe_left_over_index_harmless:
  assumes "1 \<le> nSpecies c" and "1 \<le> nDim c"
  shows "(\<forall>i. i + 2 \<le> nSpecies c + nDim c \<longrightarrow> Roe_Lambda c k e i = Roe_ProjVelocity c e)
       \<and> Roe_Epsilon c k e = Roe_Epsilon_intended c k e
       \<and> Roe_Lambda_corrected c k e = Roe_Lambda_corrected_intended c k e"
  using assms
  by (simp add: Roe_Lambda_low Roe_Epsilon_eq_intended Roe_Lambda_corrected_def
        Roe_Lambda_corrected_intended_def)


theorem Roe_left_over_index_harmless_witness:
  "1 \<le> nSpecies ex_config \<and> 1 \<le> nDim ex_config
     \<and> 0 + 2 \<le> nSpecies ex_config + nDim ex_config
     \<and> Roe_Lambda ex_config ex_kernel ex_edge 0 = Roe_ProjVelocity ex_config ex_edge
     \<and> Roe_Epsilon ex_config ex_kernel ex_edge = Roe_Epsilon_intended ex_config ex_kernel ex_edge
     \<and> Roe_Lambda_corrected ex_config ex_kernel ex_edge
         = Roe_Lambda_corrected_intended ex_config ex_kernel ex_edge"
proof -
  have h1: "1 \<le> nSpecies ex_config" and h2: "1 \<le> nDim ex_config"
    and h3: "0 + 2 \<le> nSpecies ex_config + nDim ex_config"
    by (simp_all add: ex_config_def TNE2_config_def)
  show ?thesis
    using h1 h2 h3 Roe_left_over_index_harmless [OF h1 h2, of ex_kernel ex_edge] by blast
qed

subsection \<open>The centered scheme\<close>

lemma ex_config_simps:
  "nDim ex_config = 2" "nSpecies ex_config = 1" "nPrimVar ex_config = 11" "nVar ex_config = 5"
  "RHOS_INDEX ex_config = 0" "T_INDEX ex_config = 1" "TVE_INDEX ex_config = 2"
  "VEL_INDEX ex_config = 3" "P_INDEX ex_config = 5" "RHO_INDEX ex_config = 6"
  "H_INDEX ex_config = 7" "A_INDEX ex_config = 8" "RHOCVTR_INDEX ex_config = 9"
  "RHOCVVE_INDEX ex_config = 10" "ionization ex_config = False"
  by (simp_all add: ex_config_def TNE2_config_def nVar_def)

lemma Lax_Area_zero: "Lax_Area c e = 0"
  by (simp add: Lax_Area_def for_loop_skip)

lemma Local_Lambda_no_sound_speed:
  "Local_Lambda_i c e = \<bar>Lax_ProjVel_i c e\<bar>" "Local_Lambda_j c e = \<bar>Lax_ProjVel_j c e\<bar>"
  by (simp_all add: Local_Lambda_i_def Local_Lambda_j_def Lax_Area_zero)

text \<open>
  Claim C3. In the centered scheme \<^verbatim>\<open>MeanLambda\<close> is meant to be the mean over the two cells
  of \<open>|projected velocity| + sound speed * Area\<close> with \<^verbatim>\<open>Area\<close> the norm of the normal.
  The program resets \<^verbatim>\<open>Area\<close> to 0 before that block and never accumulates it, so the
  sound speed does not enter. At the example edge (normal \<open>(1, 0)\<close>, velocities \<open>(1, 0)\<close>
  and \<open>(2, 0)\<close>, sound speed 1 on both sides) the program computes \<open>3/2\<close>; with the face
  area the mean spectral radius is \<open>5/2\<close>.
\<close>

theorem Lax_MeanLambda_at_example:
  "MeanLambda ex_config ex_cent_edge = 3/2
   \<and> 0.5 * (Local_Lambda_with_face_area ex_config (V_i ex_cent_edge) ex_cent_edge
            + Local_Lambda_with_face_area ex_config (V_j ex_cent_edge) ex_cent_edge) = 5/2"
  by (simp add: MeanLambda_def Local_Lambda_no_sound_speed Lax_ProjVel_i_def Lax_ProjVel_j_def
        Local_Lambda_with_face_area_def face_Area_def
        for_loop_acc ex_config_simps ex_cent_edge_def ex_edge_def edge.defs cent_edge.defs
        vec_of_def numeral_2_eq_2)

subsection \<open>Geometry and the AUSM family\<close>

lemma face_Area_eq: "face_Area c n = sqrt (\<Sum>d<nDim c. n d * n d)"
  by (simp add: face_Area_def for_loop_acc)

lemma face_UnitNormal_apply:
  "face_UnitNormal c n d = (if d < nDim c then n d / face_Area c n else 0)"
  by (simp add: face_UnitNormal_def for_loop_write0)

lemma ProjVel_eq: "ProjVel c V n = (\<Sum>d<nDim c. V (VEL_INDEX c + d) * n d)"
  by (simp add: ProjVel_def for_loop_acc)





































subsection \<open>The flux-vector-splitting scheme\<close>

lemma Proj_ModJac_Tensor_eq:
  "Proj_ModJac_Tensor n P L Q i j = (\<Sum>k<n. P i k * L k * Q k j)"
  by (simp add: Proj_ModJac_Tensor_def for_loop_acc)

lemma MSW_Fc_apply:
  "MSW_Fc n P L Q U Area i =
     (if i < n then (\<Sum>j<n. Proj_ModJac_Tensor n P L Q i j * U j * Area) else 0)"
  unfolding MSW_Fc_def for_loop_add_same
  by (subst for_loop_pointwise
        [where h = "\<lambda>i x. x + (\<Sum>j<n. Proj_ModJac_Tensor n P L Q i j * U j * Area)"]) simp_all

lemma CUpwMSW_apply:
  "CUpwMSW_ComputeResidual c k e l m res iVar =
     (if iVar < nVar c
      then (\<Sum>jVar<nVar c.
              Proj_ModJac_Tensor (nVar c)
                (GetPMatrix k (Ust_i c e) (Vst_i c e) (dPdU_i e) (face_UnitNormal c (Normal e)) l m)
                (MSW_Lambda_i c (ProjVelst_i c e) (Vst_i c e (A_INDEX c)))
                (GetPMatrix_inv k (Ust_i c e) (Vst_i c e) (dPdU_i e) (face_UnitNormal c (Normal e)) l m)
                iVar jVar * U_i e jVar * face_Area c (Normal e))
         + (\<Sum>jVar<nVar c.
              Proj_ModJac_Tensor (nVar c)
                (GetPMatrix k (Ust_j c e) (Vst_j c e) (dPdU_j e) (face_UnitNormal c (Normal e)) l m)
                (MSW_Lambda_j c (ProjVelst_j c e) (Vst_j c e (A_INDEX c)))
                (GetPMatrix_inv k (Ust_j c e) (Vst_j c e) (dPdU_j e) (face_UnitNormal c (Normal e)) l m)
                iVar jVar * U_j e jVar * face_Area c (Normal e))
      else res iVar)"
  by (simp add: CUpwMSW_ComputeResidual_def Let_def for_loop_write0 MSW_Fc_apply)

lemma CUpwMSW_ignores_CalcdPdU:
  "CUpwMSW_ComputeResidual c (k\<lparr>CalcdPdU := f\<rparr>) e l m res = CUpwMSW_ComputeResidual c k e l m res"
  by (simp add: CUpwMSW_ComputeResidual_def)

lemma ex_edge_simps:
  "Normal ex_edge = vec_of [1, 0]"
  "U_i ex_edge = vec_of [1, 1, 0, 3, 1]" "U_j ex_edge = vec_of [4, 8, 0, 14, 1]"
  "V_i ex_edge = vec_of [1, 300, 300, 1, 0, 1, 1, 4, 1, 1, 1]"
  "V_j ex_edge = vec_of [4, 300, 300, 2, 0, 2, 4, 4, 1, 1, 1]"
  "dPdU_i ex_edge = vec_of [0, 0, 0, 0, 0]" "dPdU_j ex_edge = vec_of [0, 0, 0, 0, 0]"
  by (simp_all add: ex_edge_def)

lemma ex_face_Area: "face_Area ex_config (Normal ex_edge) = 1"
  by (simp add: face_Area_eq ex_config_simps ex_edge_simps vec_of_def numeral_2_eq_2)

lemma ex_face_UnitNormal:
  "face_UnitNormal ex_config (Normal ex_edge) = (\<lambda>d. if d = 0 then 1 else 0)"
proof (rule ext)
  fix d
  show "face_UnitNormal ex_config (Normal ex_edge) d = (if d = 0 then 1 else 0)"
    unfolding face_UnitNormal_apply ex_face_Area
    by (auto simp: ex_config_simps ex_edge_simps vec_of_def less_Suc_eq numeral_2_eq_2)
qed

lemmas ex_face = ex_face_Area ex_face_UnitNormal

lemma ex_ProjVel:
  "ProjVel ex_config (V_i ex_edge) (face_UnitNormal ex_config (Normal ex_edge)) = 1"
  "ProjVel ex_config (V_j ex_edge) (face_UnitNormal ex_config (Normal ex_edge)) = 2"
  unfolding ex_face_UnitNormal
  by (simp_all add: ProjVel_eq ex_config_simps ex_edge_simps vec_of_def numeral_2_eq_2)

lemma ex_w: "MSW_w ex_config ex_edge = 1 / 52"
  by (simp add: MSW_w_def MSW_alpha_def ex_config_simps ex_edge_simps vec_of_def Let_def)

lemma ex_pv: "ProjVelst_i ex_config ex_edge = 53 / 52" "ProjVelst_j ex_config ex_edge = 103 / 52"
  by (simp_all add: ProjVelst_i_def ProjVelst_j_def ex_w ex_ProjVel)

lemma MSW_Lambda_i_0: "0 < nSpecies c + nDim c - 1 \<Longrightarrow> 
   MSW_Lambda_i c pv a 0 = 0.5 * (pv + \<bar>pv\<bar>)"
  by (simp add: MSW_Lambda_i_def Let_def for_loop_write0 MSW_epsilon_def)

lemma MSW_Lambda_j_pos: "0 \<le> pv - a \<Longrightarrow> 0 \<le> a \<Longrightarrow> MSW_Lambda_j c pv a = (\<lambda>_. 0)"
  by (auto simp: MSW_Lambda_j_def Let_def for_loop_write0 MSW_epsilon_def fun_eq_iff)

lemma MSW_example_program:
  "CUpwMSW_ComputeResidual ex_config ex_kernel_dPdU ex_edge l m res 0 = 53 / 52"
  unfolding CUpwMSW_apply ex_pv ex_face
  apply (simp add: ex_config_simps Proj_ModJac_Tensor_eq)
  apply (simp add: MSW_Lambda_j_pos Vst_j_def Vst_i_def weighted_state_def for_loop_write0
           ex_config_simps ex_w ex_edge_simps vec_of_def)
  apply (simp add: ex_kernel_dPdU_def ex_kernel_def)
  apply (simp add: eval_nat_numeral lessThan_Suc)
  apply (simp add: MSW_Lambda_i_0 ex_config_simps)
  done

lemma MSW_example_star:
  "MSW_residual_with_star_dPdU ex_config ex_kernel_dPdU ex_edge l m res 0 = 53 / 26"
  unfolding MSW_residual_with_star_dPdU_def Let_def for_loop_write0 MSW_Fc_apply ex_pv ex_face
  apply (simp add: ex_config_simps Proj_ModJac_Tensor_eq)
  apply (simp add: MSW_Lambda_j_pos Vst_j_def Vst_i_def weighted_state_def for_loop_write0
           ex_config_simps ex_w ex_edge_simps vec_of_def)
  apply (simp add: ex_kernel_dPdU_def ex_kernel_def dPdUst_i_def)
  apply (simp add: eval_nat_numeral lessThan_Suc)
  apply (simp add: MSW_Lambda_i_0 ex_config_simps)
  done

text \<open>
  Claim C7. In the MSW scheme the returned flux is
  \<open>P(star_i) Lambda+ P^-1(star_i) U_i Area + P(star_j) Lambda- P^-1(star_j) U_j Area\<close>
  (lemma \<open>CUpwMSW_apply\<close>), and the eigenvector matrices of each side are meant to be built
  entirely from the weighted state of that side, the pressure derivatives \<^verbatim>\<open>dPdUst\<close> at the
  weighted state included. The program computes \<^verbatim>\<open>dPdUst_i\<close> and \<^verbatim>\<open>dPdUst_j\<close> and then hands
  the node values \<^verbatim>\<open>dPdU_i\<close> and \<^verbatim>\<open>dPdU_j\<close> to \<^verbatim>\<open>GetPMatrix\<close> and \<^verbatim>\<open>GetPMatrix_inv\<close>: the
  result does not depend on \<^verbatim>\<open>CalcdPdU\<close> at all. With a kernel whose eigenvector matrix
  reads the pressure derivative, the first entry of the flux at the example edge is
  \<open>53/52\<close> in the program and \<open>53/26\<close> with the matrices built at the weighted state.
\<close>

theorem MSW_matrices_read_node_dPdU:
  "CUpwMSW_ComputeResidual c (k\<lparr>CalcdPdU := f\<rparr>) e l m res = CUpwMSW_ComputeResidual c k e l m res
   \<and> CUpwMSW_ComputeResidual ex_config ex_kernel_dPdU ex_edge l m res 0 = 53 / 52
   \<and> MSW_residual_with_star_dPdU ex_config ex_kernel_dPdU ex_edge l m res 0 = 53 / 26"
  by (simp add: CUpwMSW_ignores_CalcdPdU MSW_example_program MSW_example_star)


subsection \<open>The one-species example with its gas data\<close>






subsection \<open>Conservation across the shared face\<close>













subsection \<open>The viscous flux and its failure\<close>

lemma fold_fail_Inl:
  "fold (\<lambda>i r. case r of Inl f \<Rightarrow> Inl f | Inr s \<Rightarrow> body i s) xs (Inl f) = Inl f"
  by (induction xs) simp_all

lemma for_loop_fail_first:
  assumes "lo < hi" "body lo s = Inl f"
  shows "for_loop_fail lo hi body s = Inl f"
  using assms by (simp add: for_loop_fail_def upt_conv_Cons fold_fail_Inl)

lemma for_loop_fail_total:
  assumes "\<And>i s. \<exists>s'. body i s = Inr s'"
  shows "\<exists>s'. for_loop_fail lo hi body s = Inr s'"
proof -
  have "\<exists>s'. fold (\<lambda>i r. case r of Inl f \<Rightarrow> Inl f | Inr s \<Rightarrow> body i s) xs (Inr s) = Inr s'"
    for xs :: "nat list" and s
  proof (induction xs arbitrary: s)
    case Nil
    then show ?case by simp
  next
    case (Cons x xs)
    obtain s' where "body x s = Inr s'" using assms by blast
    then show ?case using Cons.IH [of s'] by simp
  qed
  then show ?thesis by (simp add: for_loop_fail_def)
qed

lemma visc_populate_ionized:
  "ionization c \<Longrightarrow> visc_populate c V GV val_eve Ds ktr kve hs Vector tau iDim FT
     = Inl (ProcessExit ''GetViscProjFlux -- NEED TO IMPLEMENT IONIZED FUNCTIONALITY!!!'' 1)"
  by (simp add: visc_populate_def Let_def)

lemma visc_populate_neutral:
  "\<not> ionization c \<Longrightarrow> \<exists>FT'. visc_populate c V GV val_eve Ds ktr kve hs Vector tau iDim FT = Inr FT'"
  by (simp add: visc_populate_def Let_def)

lemma GetViscousProjFlux_ionized:
  assumes "ionization c" "0 < nDim c"
  shows "GetViscousProjFlux c k V GV eve n Ds mu ktr kve
     = Inl (ProcessExit ''GetViscProjFlux -- NEED TO IMPLEMENT IONIZED FUNCTIONALITY!!!'' 1)"
  using assms
  by (simp add: GetViscousProjFlux_def Let_def for_loop_fail_first visc_populate_ionized)

lemma GetViscousProjFlux_neutral:
  assumes "\<not> ionization c"
  shows "\<exists>flux. GetViscousProjFlux c k V GV eve n Ds mu ktr kve = Inr flux"
proof -
  obtain FT where "for_loop_fail 0 (nDim c)
      (visc_populate c V GV eve Ds ktr kve (visc_hs c k V eve) (visc_Vector c V GV Ds) (visc_tau c GV mu))
      (\<lambda>_ _. 0) = Inr FT"
    using for_loop_fail_total
      [of "visc_populate c V GV eve Ds ktr kve (visc_hs c k V eve) (visc_Vector c V GV Ds) (visc_tau c GV mu)"
          0 "nDim c" "\<lambda>_ _. 0"]
      visc_populate_neutral [OF assms]
    by blast
  then show ?thesis
    by (simp add: GetViscousProjFlux_def Let_def)
qed


text \<open>
  Claim C10. When the ionization flag is set, both viscous flux implementations (of the
  plain and of the corrected average-gradient scheme) print a diagnostic message and end the
  process with \<^verbatim>\<open>exit(1)\<close> before the flux is complete; the mesh has at least one dimension,
  since the guard stands inside the loop over the dimensions. When the flag is unset the
  guard is not reached and the flux is returned: there is no other failure.
\<close>

theorem viscous_flux_ionized_exit:
  "(ionization c \<and> 0 < nDim c \<longrightarrow>
       CAvgGrad_GetViscousProjFlux c k V GV eve n Ds mu ktr kve
         = Inl (ProcessExit ''GetViscProjFlux -- NEED TO IMPLEMENT IONIZED FUNCTIONALITY!!!'' 1)
     \<and> CAvgGradCorrected_GetViscousProjFlux c k V GV eve n Ds mu ktr kve
         = Inl (ProcessExit ''GetViscProjFlux -- NEED TO IMPLEMENT IONIZED FUNCTIONALITY!!!'' 1))
   \<and> (\<not> ionization c \<longrightarrow>
       (\<exists>flux. CAvgGrad_GetViscousProjFlux c k V GV eve n Ds mu ktr kve = Inr flux)
     \<and> (\<exists>flux. CAvgGradCorrected_GetViscousProjFlux c k V GV eve n Ds mu ktr kve = Inr flux))"
  using GetViscousProjFlux_ionized [of c k V GV eve n Ds mu ktr kve]
    GetViscousProjFlux_neutral [of c k V GV eve n Ds mu ktr kve]
  by (simp add: CAvgGrad_GetViscousProjFlux_def CAvgGradCorrected_GetViscousProjFlux_def)

theorem viscous_flux_ionized_exit_witness:
  "ionization (TNE2_config 2 2 True) \<and> 0 < nDim (TNE2_config 2 2 True)
   \<and> CAvgGrad_GetViscousProjFlux (TNE2_config 2 2 True) ex_kernel (V_i ex_thin_edge) (\<lambda>_ _. 0)
         (eve_i ex_thin_edge) (Normal ex_thin_edge) (\<lambda>_. 0) 1 1 1
       = Inl (ProcessExit ''GetViscProjFlux -- NEED TO IMPLEMENT IONIZED FUNCTIONALITY!!!'' 1)
   \<and> CAvgGradCorrected_GetViscousProjFlux (TNE2_config 2 2 True) ex_kernel (V_i ex_thin_edge) (\<lambda>_ _. 0)
         (eve_i ex_thin_edge) (Normal ex_thin_edge) (\<lambda>_. 0) 1 1 1
       = Inl (ProcessExit ''GetViscProjFlux -- NEED TO IMPLEMENT IONIZED FUNCTIONALITY!!!'' 1)
   \<and> \<not> ionization ex_config
   \<and> (\<exists>flux. CAvgGrad_GetViscousProjFlux ex_config ex_kernel (V_i ex_edge) (\<lambda>_ _. 0)
         (eve_i ex_edge) (Normal ex_edge) (\<lambda>_. 0) 1 1 1 = Inr flux)
   \<and> (\<exists>flux. CAvgGradCorrected_GetViscousProjFlux ex_config ex_kernel (V_i ex_edge) (\<lambda>_ _. 0)
         (eve_i ex_edge) (Normal ex_edge) (\<lambda>_. 0) 1 1 1 = Inr flux)"
proof -
  have i: "ionization (TNE2_config 2 2 True)" "0 < nDim (TNE2_config 2 2 True)"
    by (simp_all add: TNE2_config_def)
  have n: "\<not> ionization ex_config"
    by (simp add: ex_config_simps)
  show ?thesis
    using i n
      viscous_flux_ionized_exit [of "TNE2_config 2 2 True" ex_kernel "V_i ex_thin_edge" "\<lambda>_ _. 0"
        "eve_i ex_thin_edge" "Normal ex_thin_edge" "\<lambda>_. 0" 1 1 1]
      viscous_flux_ionized_exit [of ex_config ex_kernel "V_i ex_edge" "\<lambda>_ _. 0"
        "eve_i ex_edge" "Normal ex_edge" "\<lambda>_. 0" 1 1 1]
    by blast
qed

subsection \<open>The equilibrium-constant table\<close>

lemma ex_gas_simps:
  "nDim ex_gas = 2" "nSpecies ex_gas = 2" "nVar ex_gas = 6"
  "Molar_Mass ex_gas = vec_of [28, 14]" "AVOGAD_CONSTANT ex_gas = 60221415 * 10^19"
  "ChemistryEquilConstants ex_gas = (\<lambda>r i j. real (10 * i + j))"
  "Reaction_Map ex_gas = (\<lambda>r side ii. if side = 0 then [0, 0, 2] ! ii else [1, 1, 0] ! ii)"
  "RHOS_INDEX ex_gas = 0" "T_INDEX ex_gas = 2" "TVE_INDEX ex_gas = 3" "VEL_INDEX ex_gas = 4"
  "P_INDEX ex_gas = 6" "RHO_INDEX ex_gas = 7" "H_INDEX ex_gas = 8" "A_INDEX ex_gas = 9"
  "UNIVERSAL_GAS_CONSTANT ex_gas = 83144598 / 10^7" "PI_NUMBER ex_gas = pi"
  by (simp_all add: ex_gas_def TNE2_config_def nVar_def config.defs gas.defs)

lemma Keq_pwr_decade:
  assumes "10 ^ p \<le> N" "N < 10 ^ Suc p" "p < 65536"
  shows "Keq_pwr N = Some (word_of_nat p)"
proof -
  have pos: "0 < N" using assms(1) by (smt (verit) zero_less_power)
  have "10 powr (real p + 1) = (10::real) ^ Suc p"
    using powr_realpow [of "10::real" "Suc p"] by (simp add: add.commute)
  then have "\<lfloor>log 10 N\<rfloor> = int p"
    using assms pos by (simp add: floor_log_eq_powr_iff powr_realpow)
  then show ?thesis
    using pos assms(3) by (simp add: Keq_pwr_def double_to_ushort_def)
qed

lemma iIndex_wraps:
  assumes "p < 14"
  shows "(5::16 word) \<le> word_of_nat p - 14" "\<not> (word_of_nat p - 14 \<le> (0::16 word))"
proof -
  have u: "unat (word_of_nat p - (14::16 word)) = 65522 + p"
    using assms by (simp add: unat_sub_if' unat_of_nat word_less_nat_alt)
  show "(5::16 word) \<le> word_of_nat p - 14" 
    by (simp add: word_le_nat_alt u)
  show "\<not> (word_of_nat p - 14 \<le> (0::16 word))"
    by (simp add: word_le_nat_alt u)
qed

lemma iIndex_in_table:
  assumes "14 \<le> p" "p < 65536"
  shows "unat (word_of_nat p - (14::16 word)) = p - 14"
  using assms by (simp add: unat_sub_if' unat_of_nat word_less_nat_alt)

lemma tmp_loop:
  "for_loop 0 n (\<lambda>ii (tmp1, tmp2). (tmp1 * 10, tmp2 * 10)) (1::real, 1::real) = (10 ^ n, 10 ^ n)"
  by (induction n) (simp_all add: for_loop_empty for_loop_Suc)

lemma GetKeqConstants_below_table:
  assumes "10 ^ p \<le> mixture_N c e * (1 / 10 ^ 6)" "mixture_N c e * (1 / 10 ^ 6) < 10 ^ Suc p" "p < 14"
  shows "GetKeqConstants c e A r =
           Some (\<lambda>ii. if ii < 5 then ChemistryEquilConstants c r 5 ii else A ii)"
proof -
  have "Keq_pwr (mixture_N c e * (1 / 10 ^ 6)) = Some (word_of_nat p)"
    using assms by (intro Keq_pwr_decade) simp_all
  then show ?thesis
    using iIndex_wraps [OF assms(3)]
    by (simp add: GetKeqConstants_def for_loop_write0)
qed

lemma GetKeqConstants_lowest_decade:
  assumes "10 ^ 14 \<le> mixture_N c e * (1 / 10 ^ 6)" "mixture_N c e * (1 / 10 ^ 6) < 10 ^ 15"
  shows "GetKeqConstants c e A r =
           Some (\<lambda>ii. if ii < 5 then ChemistryEquilConstants c r 0 ii else A ii)"
proof -
  have "Keq_pwr (mixture_N c e * (1 / 10 ^ 6)) = Some (word_of_nat 14)"
    using assms by (intro Keq_pwr_decade) simp_all
  then show ?thesis
    by (simp add: GetKeqConstants_def for_loop_write0)
qed

lemma GetKeqConstants_above_table:
  assumes "10 ^ p \<le> mixture_N c e * (1 / 10 ^ 6)" "mixture_N c e * (1 / 10 ^ 6) < 10 ^ Suc p"
    "19 \<le> p" "p < 65536"
  shows "GetKeqConstants c e A r =
           Some (\<lambda>ii. if ii < 5 then ChemistryEquilConstants c r 5 ii else A ii)"
proof -
  have k: "Keq_pwr (mixture_N c e * (1 / 10 ^ 6)) = Some (word_of_nat p)"
    using assms by (intro Keq_pwr_decade) simp_all
  have u: "unat (word_of_nat p - (14::16 word)) = p - 14"
    using assms by (intro iIndex_in_table) simp_all
  have "(5::16 word) \<le> word_of_nat p - 14" "\<not> (word_of_nat p - 14 \<le> (0::16 word))"
    using assms by (simp_all add: word_le_nat_alt u)
  then show ?thesis
    using k by (simp add: GetKeqConstants_def for_loop_write0)
qed

lemma GetKeqConstants_interpolates:
  assumes "10 ^ p \<le> mixture_N c e * (1 / 10 ^ 6)" "mixture_N c e * (1 / 10 ^ 6) < 10 ^ Suc p"
    "15 \<le> p" "p < 19"
  shows "GetKeqConstants c e A r =
           Some (\<lambda>ii. if ii < 5
                  then (ChemistryEquilConstants c r (p - 14 + 1) ii - ChemistryEquilConstants c r (p - 14) ii)
                         / (10 ^ Suc p - 10 ^ p) * (mixture_N c e * (1 / 10 ^ 6) - 10 ^ p)
                       + ChemistryEquilConstants c r (p - 14) ii
                  else A ii)"
proof -
  have k: "Keq_pwr (mixture_N c e * (1 / 10 ^ 6)) = Some (word_of_nat p)"
    using assms by (intro Keq_pwr_decade) simp_all
  have u: "unat (word_of_nat p - (14::16 word)) = p - 14"
    using assms by (intro iIndex_in_table) simp_all
  have p: "unat (word_of_nat p :: 16 word) = p"
    using assms by (simp add: unat_of_nat)
  have "\<not> (5::16 word) \<le> word_of_nat p - 14" "\<not> (word_of_nat p - 14 \<le> (0::16 word))"
    using assms by (simp_all add: word_le_nat_alt u)
  then show ?thesis
    using k by (simp add: GetKeqConstants_def Let_def for_loop_write0 tmp_loop u p fun_eq_iff mult.commute)
qed


lemma thin_N: "mixture_N ex_gas ex_thin_edge * (1 / 10 ^ 6) = 60221415 * 10^4"
  by (simp add: mixture_N_def for_loop_acc ex_gas_simps ex_thin_edge_def vec_of_def numeral_2_eq_2)

text \<open>
  Claim C2. \<^verbatim>\<open>GetKeqConstants\<close> is meant to return the lowest table row
  (\<^verbatim>\<open>RxnConstantTable[0]\<close>) when the mixture number density per cubic centimetre is below
  \<open>10^14\<close>, the highest row (\<^verbatim>\<open>RxnConstantTable[5]\<close>) above the highest decade, and to
  interpolate in between. The index \<^verbatim>\<open>iIndex = pwr - tbl_offset\<close> is an unsigned 16-bit
  number: below \<open>10^14\<close> the subtraction wraps around to a value of at least 65522, the test
  \<^verbatim>\<open>iIndex <= 0\<close> fails and \<^verbatim>\<open>iIndex >= 5\<close> holds. At the thin-gas example (about
  \<open>6e11\<close> per cubic centimetre) the program returns row 5, whose entries differ from those
  of row 0.
\<close>

theorem GetKeqConstants_thin_gas_returns_top_row:
  "mixture_N ex_gas ex_thin_edge * (1 / 10 ^ 6) < 10 ^ 14
   \<and> GetKeqConstants ex_gas ex_thin_edge (\<lambda>_. 0) 0
       = Some (\<lambda>ii. if ii < 5 then ChemistryEquilConstants ex_gas 0 5 ii else 0)
   \<and> ChemistryEquilConstants ex_gas 0 5 0 = 50
   \<and> ChemistryEquilConstants ex_gas 0 0 0 = 0"
proof -
  have "10 ^ 11 \<le> mixture_N ex_gas ex_thin_edge * (1 / 10 ^ 6)"
    and "mixture_N ex_gas ex_thin_edge * (1 / 10 ^ 6) < 10 ^ Suc 11"
    and "mixture_N ex_gas ex_thin_edge * (1 / 10 ^ 6) < 10 ^ 14"
    unfolding thin_N by simp_all
  then show ?thesis
    using GetKeqConstants_below_table [of 11 ex_gas ex_thin_edge "\<lambda>_. 0" 0]
    by (simp add: ex_gas_simps)
qed

subsection \<open>Chemistry: the species sum of one reaction\<close>

lemma sum_upd_in:
  fixes f :: vec
  assumes "i < n"
  shows "(\<Sum>s<n. (f(i := v)) s) = (\<Sum>s<n. f s) + (v - f i)"
proof -
  have "(\<Sum>s<n. (f(i := v)) s) = (\<Sum>s\<in>{..<n} - {i}. (f(i := v)) s) + (f(i := v)) i"
    using assms by (simp add: sum.remove [of _ i] add.commute)
  also have "(\<Sum>s\<in>{..<n} - {i}. (f(i := v)) s) = (\<Sum>s\<in>{..<n} - {i}. f s)"
    by (intro sum.cong) auto
  also have "\<dots> = (\<Sum>s<n. f s) - f i"
    using assms by (simp add: sum.remove [of _ i])
  finally show ?thesis by simp
qed

lemma sum_upd_out:
  fixes f :: vec
  assumes "n \<le> i"
  shows "(\<Sum>s<n. (f(i := v)) s) = (\<Sum>s<n. f s)"
  using assms by (intro sum.cong) auto

lemma add_product_species_sum:
  assumes "i \<le> nSpecies c"
  shows "(\<Sum>s<nSpecies c. add_product c e fwdRxn bkwRxn i res s)
           = (\<Sum>s<nSpecies c. res s)
             + (if i \<noteq> nSpecies c then Molar_Mass c i * (fwdRxn - bkwRxn) * Volume e else 0)"
  using assms by (simp add: add_product_def Let_def sum_upd_in sum_upd_out del: fun_upd_apply)

lemma subtract_reactant_species_sum:
  assumes "i \<le> nSpecies c"
  shows "(\<Sum>s<nSpecies c. subtract_reactant c e fwdRxn bkwRxn i res s)
           = (\<Sum>s<nSpecies c. res s)
             - (if i \<noteq> nSpecies c then Molar_Mass c i * (fwdRxn - bkwRxn) * Volume e else 0)"
  using assms by (simp add: subtract_reactant_def Let_def sum_upd_in sum_upd_out del: fun_upd_apply)

lemma reaction_update_species_sum:
  assumes "\<forall>ii<3. Reaction_Map c r 0 ii \<le> nSpecies c \<and> Reaction_Map c r 1 ii \<le> nSpecies c"
  shows "(\<Sum>s<nSpecies c. reaction_update c e r fwdRxn bkwRxn res s)
           = (\<Sum>s<nSpecies c. res s)
             + Volume e * (fwdRxn - bkwRxn) * (slot_mass c r 1 - slot_mass c r 0)"
proof -
  let ?m = "\<lambda>side ii. (if Reaction_Map c r side ii \<noteq> nSpecies c
                    then Molar_Mass c (Reaction_Map c r side ii) else 0)"
  let ?d = "\<lambda>ii. Volume e * (fwdRxn - bkwRxn) * (?m 1 ii - ?m 0 ii)"
  have "(\<Sum>s<nSpecies c. reaction_update c e r fwdRxn bkwRxn res s)
          = (\<Sum>s<nSpecies c. res s) + (\<Sum>ii<3. ?d ii)"
    unfolding reaction_update_def
  proof (rule for_loop_measure [where S = "\<lambda>f. \<Sum>s<nSpecies c. f s" and d = ?d])
    fix ii :: nat and s :: vec
    assume "ii < 3"
    then have "Reaction_Map c r 0 ii \<le> nSpecies c" "Reaction_Map c r 1 ii \<le> nSpecies c"
      using assms by auto
    then show "(\<Sum>sa<nSpecies c. subtract_reactant c e fwdRxn bkwRxn (Reaction_Map c r 0 ii)
                   (add_product c e fwdRxn bkwRxn (Reaction_Map c r 1 ii) s) sa)
               = (\<Sum>sa<nSpecies c. s sa) + ?d ii"
      by (simp add: subtract_reactant_species_sum add_product_species_sum algebra_simps)
  qed
  also have "(\<Sum>ii<3. ?d ii) = Volume e * (fwdRxn - bkwRxn) * (slot_mass c r 1 - slot_mass c r 0)"
    unfolding slot_mass_def sum_distrib_left [symmetric] sum_subtractf ..
  finally show ?thesis .
qed

lemma ComputeChemistry_reaction_residual:
  assumes "ComputeChemistry_reaction c e r (A, res, src) = Some (A', res', src')"
  shows "GetKeqConstants c e A r = Some A'"
    and "res' = reaction_update c e r (fst (reaction_rates c e A' r)) (snd (reaction_rates c e A' r)) res"
  using assms
  by (auto simp: ComputeChemistry_reaction_def Let_def split: option.splits prod.splits)

text \<open>
  Claim C6. For a single reaction step of \<^verbatim>\<open>ComputeChemistry\<close>, the sum over all species
  indices of what the step adds to the species-density residual equals
  \<open>Volume * (fwdRxn - bkwRxn)\<close> times (the molar masses in the product slots minus those in
  the reactant slots); it is zero for every reaction whose listed reactant and product molar
  masses balance. The slots hold species indices or \<^verbatim>\<open>nSpecies\<close> for an empty slot. The
  residual of a step of the program is this update with the rates the program computes.
\<close>

theorem chemistry_reaction_mass_balance:
  assumes "\<forall>ii<3. Reaction_Map c r 0 ii \<le> nSpecies c \<and> Reaction_Map c r 1 ii \<le> nSpecies c"
  shows "(\<Sum>s<nSpecies c. reaction_update c e r fwdRxn bkwRxn res s - res s)
           = Volume e * (fwdRxn - bkwRxn) * (slot_mass c r 1 - slot_mass c r 0)
       \<and> (slot_mass c r 1 = slot_mass c r 0
            \<longrightarrow> (\<Sum>s<nSpecies c. reaction_update c e r fwdRxn bkwRxn res s - res s) = 0)
       \<and> (\<forall>A src A' res' src'.
             ComputeChemistry_reaction c e r (A, res, src) = Some (A', res', src')
             \<longrightarrow> (\<Sum>s<nSpecies c. res' s - res s)
                   = Volume e * (fst (reaction_rates c e A' r) - snd (reaction_rates c e A' r))
                       * (slot_mass c r 1 - slot_mass c r 0))"
proof -
  have sum: "(\<Sum>s<nSpecies c. reaction_update c e r f b res s - res s)
           = Volume e * (f - b) * (slot_mass c r 1 - slot_mass c r 0)" for f b
    by (simp add: sum_subtractf reaction_update_species_sum [OF assms])
  show ?thesis
    using sum by (auto dest!: ComputeChemistry_reaction_residual(2))
qed

lemma ex_gas_slots:
  "\<forall>ii<3. Reaction_Map ex_gas 0 0 ii \<le> nSpecies ex_gas \<and> Reaction_Map ex_gas 0 1 ii \<le> nSpecies ex_gas"
  by (auto simp: ex_gas_simps less_Suc_eq numeral_3_eq_3)

lemma ex_gas_slot_mass: "slot_mass ex_gas 0 1 = 56" "slot_mass ex_gas 0 0 = 56"
  by (simp_all add: slot_mass_def ex_gas_simps vec_of_def numeral_3_eq_3)

theorem chemistry_reaction_mass_balance_witness:
  "slot_mass ex_gas 0 1 = 56 \<and> slot_mass ex_gas 0 0 = 56
   \<and> (\<Sum>s<nSpecies ex_gas. reaction_update ex_gas ex_thin_edge 0 2 1 (\<lambda>_. 0) s - (\<lambda>_. 0) s) = 0
   \<and> (\<exists>A' res' src'. ComputeChemistry_reaction ex_gas ex_thin_edge 0 (\<lambda>_. 0, \<lambda>_. 0, \<lambda>_. 0)
          = Some (A', res', src')
        \<and> (\<Sum>s<nSpecies ex_gas. res' s - (\<lambda>_. 0) s) = 0)"
proof -
  note bal = chemistry_reaction_mass_balance [OF ex_gas_slots, of ex_thin_edge _ _ "\<lambda>_. 0"]
  have "GetKeqConstants ex_gas ex_thin_edge (\<lambda>_. 0) 0 \<noteq> None"
    using GetKeqConstants_below_table [of 11 ex_gas ex_thin_edge "\<lambda>_. 0" 0]
    unfolding thin_N by simp
  then obtain A' where k: "GetKeqConstants ex_gas ex_thin_edge (\<lambda>_. 0) 0 = Some A'"
    by auto
  obtain f b where r: "reaction_rates ex_gas ex_thin_edge A' 0 = (f, b)"
    by (cases "reaction_rates ex_gas ex_thin_edge A' 0")
  obtain res' src' where
    step: "ComputeChemistry_reaction ex_gas ex_thin_edge 0 (\<lambda>_. 0, \<lambda>_. 0, \<lambda>_. 0) = Some (A', res', src')"
    by (simp add: ComputeChemistry_reaction_def Let_def k r)
  have "(\<Sum>s<nSpecies ex_gas. res' s - (\<lambda>_. 0) s)
          = Volume ex_thin_edge * (fst (reaction_rates ex_gas ex_thin_edge A' 0)
                                    - snd (reaction_rates ex_gas ex_thin_edge A' 0))
              * (slot_mass ex_gas 0 1 - slot_mass ex_gas 0 0)"
    using bal [of 0 0] step by blast
  then have a: "(\<Sum>s<nSpecies ex_gas. res' s - (\<lambda>_. 0) s) = 0"
    unfolding ex_gas_slot_mass by simp
  have "(\<Sum>s<nSpecies ex_gas. reaction_update ex_gas ex_thin_edge 0 2 1 (\<lambda>_. 0) s - (\<lambda>_. 0) s)
          = Volume ex_thin_edge * (2 - 1) * (slot_mass ex_gas 0 1 - slot_mass ex_gas 0 0)"
    using bal [of 2 1] by blast
  then have b: "(\<Sum>s<nSpecies ex_gas. reaction_update ex_gas ex_thin_edge 0 2 1 (\<lambda>_. 0) s - (\<lambda>_. 0) s) = 0"
    unfolding ex_gas_slot_mass by simp
  show ?thesis
    using a b step ex_gas_slot_mass by blast
qed

subsection \<open>Vibrational relaxation times\<close>

lemma tau_sr_pos: "0 < V_i e (P_INDEX c) \<Longrightarrow> 0 < tau_sr c e s r"
  by (simp add: tau_sr_def Let_def)

lemma vib_X_apply:
  "vib_X c e s = (if s < nSpecies c
     then (V_i e (RHOS_INDEX c + s) / Molar_Mass c s) / vib_conc c e else 0)"
  by (simp add: vib_X_def for_loop_write0)

lemma vib_N_conc: "vib_N c e = vib_conc c e * AVOGAD_CONSTANT c"
  by (simp add: vib_N_def vib_conc_def for_loop_acc sum_distrib_right)

lemma tauMW_eq:
  "tauMW c e s = (\<Sum>r<nSpecies c. vib_X c e r) / (\<Sum>r<nSpecies c. vib_X c e r / tau_sr c e s r)"
  by (simp add: tauMW_def for_loop_acc2)

lemma vib_positive_parts:
  assumes T: "0 < V_i e (T_INDEX c)" and P: "0 < V_i e (P_INDEX c)"
    and Ms: "\<forall>s<nSpecies c. 0 < Molar_Mass c s"
    and rho: "\<forall>s<nSpecies c. 0 \<le> V_i e (RHOS_INDEX c + s)"
    and X: "\<exists>s<nSpecies c. 0 < vib_X c e s"
    and phys: "0 < UNIVERSAL_GAS_CONSTANT c" "0 < AVOGAD_CONSTANT c" "0 < PI_NUMBER c"
  shows "\<forall>s<nSpecies c. 0 \<le> vib_X c e s"
    and "\<forall>s<nSpecies c. 0 < tauMW c e s"
    and "\<forall>s<nSpecies c. 0 < tauP c e s"
proof -
  have conc_nonneg: "0 \<le> vib_conc c e"
    unfolding vib_conc_def for_loop_acc using Ms rho by (auto intro!: sum_nonneg)
  obtain s0 where s0: "s0 < nSpecies c" "0 < vib_X c e s0" using X by blast
  have "vib_conc c e \<noteq> 0" using s0 by (auto simp: vib_X_apply)
  then have conc: "0 < vib_conc c e" using conc_nonneg by simp
  show Xn: "\<forall>s<nSpecies c. 0 \<le> vib_X c e s"
    using Ms rho conc by (auto simp: vib_X_apply intro!: divide_nonneg_pos mult_pos_pos)
  have N: "0 < vib_N c e" using conc phys by (simp add: vib_N_conc)
  show "\<forall>s<nSpecies c. 0 < tauMW c e s"
  proof (intro allI impI)
    fix s assume "s < nSpecies c"
    have num: "0 < (\<Sum>r<nSpecies c. vib_X c e r)"
      using Xn s0 by (intro sum_pos2 [of _ s0]) auto
    have "0 < (\<Sum>r<nSpecies c. vib_X c e r / tau_sr c e s r)"
      using Xn s0 tau_sr_pos [OF P] by (intro sum_pos2 [of _ s0]) (auto simp: less_imp_le)
    then show "0 < tauMW c e s" using num by (simp add: tauMW_eq)
  qed
  show "\<forall>s<nSpecies c. 0 < tauP c e s"
  proof (intro allI impI)
    fix s assume s: "s < nSpecies c"
    then have "0 < Molar_Mass c s" using Ms by simp
    then show "0 < tauP c e s"
      using T N phys by (simp add: tauP_def Let_def)
  qed
qed


text \<open>
  Claim C8. In \<^verbatim>\<open>ComputeVibRelaxation\<close>, for every state with \<open>T > 0\<close>, \<open>P > 0\<close> and
  nonnegative mole fractions \<open>X\<close> of which at least one is positive, every pairwise
  Millikan-White time \<^verbatim>\<open>tau_sr[s][r]\<close>, every mixture time \<^verbatim>\<open>tauMW[s]\<close>, every Park time
  \<^verbatim>\<open>tauP[s]\<close> and every total \<^verbatim>\<open>taus[s] = tauMW[s] + tauP[s]\<close> is strictly positive. The
  state is a valid one: species densities are nonnegative; the molar masses and the physical
  constants are positive.
\<close>

theorem vibrational_relaxation_times_positive:
  assumes "0 < V_i e (T_INDEX c)" and "0 < V_i e (P_INDEX c)"
    and "\<forall>s<nSpecies c. 0 < Molar_Mass c s"
    and "\<forall>s<nSpecies c. 0 \<le> V_i e (RHOS_INDEX c + s)"
    and "\<exists>s<nSpecies c. 0 < vib_X c e s"
    and "0 < UNIVERSAL_GAS_CONSTANT c" "0 < AVOGAD_CONSTANT c" "0 < PI_NUMBER c"
  shows "(\<forall>s<nSpecies c. 0 \<le> vib_X c e s)
       \<and> (\<forall>s<nSpecies c. \<forall>r<nSpecies c. 0 < tau_sr c e s r)
       \<and> (\<forall>s<nSpecies c. 0 < tauMW c e s \<and> 0 < tauP c e s \<and> 0 < taus c e s
              \<and> taus c e s = tauMW c e s + tauP c e s)"
  using vib_positive_parts [OF assms] tau_sr_pos [OF assms(2)]
  by (simp add: taus_def add_pos_pos)

lemma ex_thin_X: "vib_X ex_gas ex_thin_edge 0 = 1"
  by (simp add: vib_X_apply vib_conc_def for_loop_acc ex_gas_simps ex_thin_edge_def vec_of_def
        numeral_2_eq_2)

theorem vibrational_relaxation_times_positive_witness:
  "0 < V_i ex_thin_edge (T_INDEX ex_gas) \<and> 0 < V_i ex_thin_edge (P_INDEX ex_gas)
   \<and> 0 < vib_X ex_gas ex_thin_edge 0
   \<and> 0 < tau_sr ex_gas ex_thin_edge 0 1
   \<and> 0 < tauMW ex_gas ex_thin_edge 0 \<and> 0 < tauP ex_gas ex_thin_edge 0
   \<and> 0 < taus ex_gas ex_thin_edge 0"
proof -
  have h1: "0 < V_i ex_thin_edge (T_INDEX ex_gas)" and h2: "0 < V_i ex_thin_edge (P_INDEX ex_gas)"
    by (simp_all add: ex_gas_simps ex_thin_edge_def vec_of_def)
  have h3: "\<forall>s<nSpecies ex_gas. 0 < Molar_Mass ex_gas s"
    and h4: "\<forall>s<nSpecies ex_gas. 0 \<le> V_i ex_thin_edge (RHOS_INDEX ex_gas + s)"
    by (auto simp: ex_gas_simps ex_thin_edge_def vec_of_def less_Suc_eq numeral_2_eq_2)
  have h5: "\<exists>s<nSpecies ex_gas. 0 < vib_X ex_gas ex_thin_edge s"
    using ex_thin_X by (intro exI [of _ 0]) (simp add: ex_gas_simps)
  have h6: "0 < UNIVERSAL_GAS_CONSTANT ex_gas" "0 < AVOGAD_CONSTANT ex_gas" "0 < PI_NUMBER ex_gas"
    by (simp_all add: ex_gas_simps)
  have n: "(0::nat) < nSpecies ex_gas" "(1::nat) < nSpecies ex_gas"
    by (simp_all add: ex_gas_simps)
  have x: "0 < vib_X ex_gas ex_thin_edge 0"
    by (simp add: ex_thin_X)
  show ?thesis
    using n h1 h2 x vibrational_relaxation_times_positive [OF h1 h2 h3 h4 h5 h6]
    by blast
qed

subsection \<open>Both sides in the same state\<close>





































subsection \<open>The example edge with the same state on both sides\<close>


























subsection \<open>Consistency of the schemes\<close>





end
